theory Spec2Isabelle
  imports Complex_Main
begin

section \<open>Outcomes of a call\<close>

text \<open>
  The exceptions that \<open>wdd.py\<close> and NumPy raise on the paths modelled here.
  \<open>Other\<close> carries the class name of any exception an external collaborator raises.
\<close>

datatype error = NameError string | TypeError | IndexError | ValueError | Other string

text \<open>
  A call either raises, or returns a value, or reaches a floating-point division by zero
  (or the square root of a negative number). NumPy does not raise there: it emits a
  RuntimeWarning, stores inf or nan and goes on. Array entries are modelled as exact
  real and complex numbers, which have no inf and no nan, so the embedding records that
  point as \<open>NonFinite\<close> and follows the execution no further.
\<close>

datatype 'a outcome = Raise error | NonFinite | Return 'a

definition and_then :: "'a outcome \<Rightarrow> ('a \<Rightarrow> 'b outcome) \<Rightarrow> 'b outcome" where
  "and_then m f = (case m of Raise e \<Rightarrow> Raise e | NonFinite \<Rightarrow> NonFinite | Return x \<Rightarrow> f x)"

text \<open>A \<open>for\<close> loop over a list of indices; an exception in the body leaves the loop.\<close>

fun for_each :: "nat list \<Rightarrow> (nat \<Rightarrow> 's \<Rightarrow> 's outcome) \<Rightarrow> 's \<Rightarrow> 's outcome" where
  "for_each [] body s = Return s"
| "for_each (i # rest) body s = and_then (body i s) (for_each rest body)"

section \<open>Arrays\<close>

text \<open>
  A NumPy array of rank 2 or 4: its shape and its entries. Only the entries whose index
  lies inside the shape belong to the array.
\<close>

type_synonym idx2 = "nat \<times> nat"
type_synonym idx4 = "nat \<times> nat \<times> nat \<times> nat"

datatype 'a nd2 = Nd2 (shape2: idx2) (item2: "idx2 \<Rightarrow> 'a")

datatype 'a nd4 = Nd4 (shape4: idx4) (item4: "idx4 \<Rightarrow> 'a")

fun inside2 :: "idx2 \<Rightarrow> idx2 \<Rightarrow> bool" where
  "inside2 (n0, n1) (a, b) = (a < n0 \<and> b < n1)"

fun inside4 :: "idx4 \<Rightarrow> idx4 \<Rightarrow> bool" where
  "inside4 (n0, n1, n2, n3) (a, b, c, d) = (a < n0 \<and> b < n1 \<and> c < n2 \<and> d < n3)"

text \<open>\<open>np.zeros(shape)\<close>\<close>

definition zeros4 :: "idx4 \<Rightarrow> complex nd4" where
  "zeros4 shp = Nd4 shp (\<lambda>_. 0)"

text \<open>\<open>np.conj\<close> on arrays of rank 2 and 4\<close>

definition conj2 :: "complex nd2 \<Rightarrow> complex nd2" where
  "conj2 X = Nd2 (shape2 X) (\<lambda>i. cnj (item2 X i))"

definition conj4 :: "complex nd4 \<Rightarrow> complex nd4" where
  "conj4 X = Nd4 (shape4 X) (\<lambda>i. cnj (item4 X i))"

subsection \<open>Broadcasting\<close>

text \<open>
  Two axis lengths are compatible when they are equal or one of them is 1; an operand of
  length 1 is read at index 0 whatever the index of the result.
\<close>

definition bcast_dim :: "nat \<Rightarrow> nat \<Rightarrow> nat option" where
  "bcast_dim m n = (if m = n then Some m else if m = 1 then Some n else if n = 1 then Some m else None)"

definition bidx :: "nat \<Rightarrow> nat \<Rightarrow> nat" where
  "bidx n i = (if n = 1 then 0 else i)"

text \<open>\<open>np.multiply(X, Y)\<close> on arrays of rank 2\<close>

definition np_multiply :: "complex nd2 \<Rightarrow> complex nd2 \<Rightarrow> complex nd2 outcome" where
  "np_multiply X Y =
     (case shape2 X of (m0, m1) \<Rightarrow> case shape2 Y of (n0, n1) \<Rightarrow>
        (case bcast_dim m0 n0 of None \<Rightarrow> Raise ValueError | Some r0 \<Rightarrow>
         case bcast_dim m1 n1 of None \<Rightarrow> Raise ValueError | Some r1 \<Rightarrow>
           Return (Nd2 (r0, r1)
                    (\<lambda>(a, b). item2 X (bidx m0 a, bidx m1 b) * item2 Y (bidx n0 a, bidx n1 b)))))"

subsection \<open>Basic indexing\<close>

text \<open>\<open>A[:, :, ii, jj]\<close>, read\<close>

definition getitem_last :: "'a nd4 \<Rightarrow> nat \<Rightarrow> nat \<Rightarrow> 'a nd2 outcome" where
  "getitem_last A ii jj =
     (case shape4 A of (n0, n1, n2, n3) \<Rightarrow>
        if ii < n2 \<and> jj < n3
        then Return (Nd2 (n0, n1) (\<lambda>(a, b). item4 A (a, b, ii, jj)))
        else Raise IndexError)"

text \<open>\<open>A[i, j, :, :]\<close>, read\<close>

definition getitem_first :: "'a nd4 \<Rightarrow> nat \<Rightarrow> nat \<Rightarrow> 'a nd2 outcome" where
  "getitem_first A i j =
     (case shape4 A of (n0, n1, n2, n3) \<Rightarrow>
        if i < n0 \<and> j < n1
        then Return (Nd2 (n2, n3) (\<lambda>(c, d). item4 A (i, j, c, d)))
        else Raise IndexError)"

text \<open>
  \<open>A[:, :, ii, jj] = V\<close>: the value is broadcast to the shape of the slice; the
  array is returned updated.
\<close>

definition setitem_last :: "'a nd4 \<Rightarrow> nat \<Rightarrow> nat \<Rightarrow> 'a nd2 \<Rightarrow> 'a nd4 outcome" where
  "setitem_last A ii jj V =
     (case shape4 A of (n0, n1, n2, n3) \<Rightarrow> case shape2 V of (v0, v1) \<Rightarrow>
        if ii < n2 \<and> jj < n3 then
          if (v0 = n0 \<or> v0 = 1) \<and> (v1 = n1 \<or> v1 = 1)
          then Return (Nd4 (n0, n1, n2, n3) (\<lambda>(a, b, c, d).
                 if a < n0 \<and> b < n1 \<and> c = ii \<and> d = jj
                 then item2 V (bidx v0 a, bidx v1 b) else item4 A (a, b, c, d)))
          else Raise ValueError
        else Raise IndexError)"

section \<open>Pointwise Conjugate Multiplier\<close>

text \<open>
  \<open>psi_multiply\<close>, lines 34 to 39. The result starts as zeros of the shape of
  \<open>data_1\<close>; the outer loop runs over axis 3, the inner one over axis 2, and each
  turn stores \<open>np.multiply(data_1[:,:,ii,jj], np.conj(data_2[:,:,ii,jj]))\<close> at
  \<open>[:,:,ii,jj]\<close>.
\<close>

definition psi_multiply_body ::
  "complex nd4 \<Rightarrow> complex nd4 \<Rightarrow> nat \<Rightarrow> nat \<Rightarrow> complex nd4 \<Rightarrow> complex nd4 outcome" where
  "psi_multiply_body data_1 data_2 jj ii multiplied_data =
     and_then (getitem_last data_1 ii jj) (\<lambda>x.
     and_then (getitem_last data_2 ii jj) (\<lambda>y.
     and_then (np_multiply x (conj2 y)) (\<lambda>p.
     setitem_last multiplied_data ii jj p)))"

definition psi_multiply :: "complex nd4 \<Rightarrow> complex nd4 \<Rightarrow> complex nd4 outcome" where
  "psi_multiply data_1 data_2 =
     (case shape4 data_1 of (s0, s1, s2, s3) \<Rightarrow>
        for_each [0..<s3]
          (\<lambda>jj. for_each [0..<s2] (psi_multiply_body data_1 data_2 jj))
          (zeros4 (s0, s1, s2, s3)))"


section \<open>External collaborators\<close>

text \<open>
  The probe model \<open>gp.make_probe\<close>, the interpolating shift
  \<open>scnd.interpolation.shift\<close> and the sparsifier \<open>pu.sparse4D\<close> are not part of
  \<open>wdd.py\<close>; the functions below take them as arguments. A Python call passes a
  list of positional arguments, so the probe model receives the list as the call site
  builds it.
\<close>

datatype pyarg = PyFloat real | PyInt int | PyTuple "pyarg list"

type_synonym probe_model = "pyarg list \<Rightarrow> complex nd2 outcome"
type_synonym shifter = "complex nd2 \<Rightarrow> real \<times> real \<Rightarrow> complex nd2 outcome"
type_synonym sparsifier = "complex nd4 \<Rightarrow> real nd4 \<Rightarrow> complex nd4 outcome"

text \<open>
  Modelled from the spec: the interpolating shift (\<open>scnd.interpolation.shift\<close>) is a
  library function whose source is not part of \<open>wdd.py\<close>. The spec describes it as
  interpolation-based, continuous, not circular and sub-pixel accurate. The contract
  below keeps of that what the properties need: the offset is any pair of reals and the
  result has the shape of the input; at an offset of whole pixels the result holds the
  samples of the input, \<open>output[i] = input[i - offset]\<close>; and what is shifted in from
  beyond the edge is the fill value 0 (the default of the library), not the entries of
  the opposite edge.
\<close>

definition interpolating_shift :: "shifter \<Rightarrow> bool" where
  "interpolating_shift shift \<longleftrightarrow>
     (\<forall>X off. \<exists>Z. shift X off = Return Z \<and> shape2 Z = shape2 X) \<and>
     (\<forall>X dx dy Z a b.
        shift X (real_of_int dx, real_of_int dy) = Return Z \<and> inside2 (shape2 X) (a, b) \<longrightarrow>
        item2 Z (a, b) =
          (if 0 \<le> int a - dx \<and> int a - dx < int (fst (shape2 X)) \<and>
              0 \<le> int b - dy \<and> int b - dy < int (snd (shape2 X))
           then item2 X (nat (int a - dx), nat (int b - dy)) else 0))"

text \<open>
  Modelled from the spec: the signature of the Probe Model \<open>make_probe\<close>, whose
  source (\<open>beam/gen_probe.py\<close>) is missing. The spec gives it five positional
  parameters \<open>(aperture_angle, voltage, width, height, calibration)\<close> and a result of
  shape \<open>(width, height)\<close>; the wavefunction itself is left open and is the argument
  \<open>wavefunction\<close>. A call with another number of arguments is a TypeError, as for
  every Python function without defaults.
\<close>

fun pynum :: "pyarg \<Rightarrow> real option" where
  "pynum (PyFloat x) = Some x"
| "pynum (PyInt k) = Some (real_of_int k)"
| "pynum (PyTuple xs) = None"

definition make_probe_spec ::
  "(real \<Rightarrow> real \<Rightarrow> real \<Rightarrow> idx2 \<Rightarrow> idx2 \<Rightarrow> complex) \<Rightarrow> probe_model" where
  "make_probe_spec wavefunction args =
     (case args of
        [aperture_angle, voltage, width, height, calibration] \<Rightarrow>
          (case (pynum aperture_angle, pynum voltage, width, height, pynum calibration) of
             (Some a, Some v, PyInt w, PyInt h, Some c) \<Rightarrow>
               if 0 \<le> w \<and> 0 \<le> h
               then Return (Nd2 (nat w, nat h) (wavefunction a v c (nat w, nat h)))
               else Raise ValueError
           | _ \<Rightarrow> Raise TypeError)
      | _ \<Rightarrow> Raise TypeError)"

section \<open>Wigner Probe Synthesizer\<close>

definition size2 :: "'a nd2 \<Rightarrow> nat" where
  "size2 X = (case shape2 X of (n0, n1) \<Rightarrow> n0 * n1)"

text \<open>\<open>X / s\<close> for an array and a float scalar: a zero divisor yields inf or nan entries.\<close>

definition true_divide2 :: "complex nd2 \<Rightarrow> real \<Rightarrow> complex nd2 outcome" where
  "true_divide2 X s =
     (if s = 0 \<and> size2 X \<noteq> 0 then NonFinite
      else Return (Nd2 (shape2 X) (\<lambda>i. item2 X i / of_real s)))"

text \<open>
  The offset of a grid position, lines 100 and 101: \<open>rows_k - (image_k / 2)\<close>, with
  Python's true division.
\<close>

definition grid_offset :: "nat \<Rightarrow> nat \<Rightarrow> real" where
  "grid_offset rows_k image_k = real rows_k - real image_k / 2"

text \<open>\<open>fft_wigner_probe\<close>, lines 93 to 105; first the body of the inner loop.\<close>

definition fft_wigner_probe_body ::
  "shifter \<Rightarrow> complex nd2 \<Rightarrow> nat \<Rightarrow> nat \<Rightarrow> nat \<Rightarrow> nat \<Rightarrow> complex nd4 \<Rightarrow> complex nd4 outcome" where
  "fft_wigner_probe_body shift fourier_beam image_x image_y rows_x rows_y wigner_beam =
     (let xpos = grid_offset rows_x image_x;
          ypos = grid_offset rows_y image_y
      in and_then (shift fourier_beam (- xpos, - ypos)) (\<lambda>moved_fourier_beam.
         and_then (np_multiply (conj2 fourier_beam) moved_fourier_beam) (\<lambda>convolved_beam.
         setitem_last wigner_beam rows_x rows_y convolved_beam)))"

definition fft_wigner_probe ::
  "probe_model \<Rightarrow> shifter \<Rightarrow> real \<Rightarrow> real \<Rightarrow> nat \<times> nat \<Rightarrow> real \<Rightarrow> real \<Rightarrow> complex nd4 outcome" where
  "fft_wigner_probe make_probe shift aperture_mrad voltage image_size calibration_pm intensity_param =
     (let image_y = fst image_size;
          image_x = snd image_size
      in and_then (make_probe [PyFloat aperture_mrad, PyFloat voltage,
                               PyInt (int image_x), PyInt (int image_y),
                               PyFloat calibration_pm]) (\<lambda>tb.
         and_then (true_divide2 tb intensity_param) (\<lambda>fourier_beam.
         for_each [0..<image_x]
           (\<lambda>rows_x. for_each [0..<image_y]
              (fft_wigner_probe_body shift fourier_beam image_x image_y rows_x))
           (zeros4 (image_x, image_y, image_x, image_y)))))"

section \<open>Fourier transforms and centering shifts\<close>

text \<open>Length of an axis, and an index with one coordinate replaced.\<close>

fun ax_len :: "nat \<Rightarrow> idx4 \<Rightarrow> nat" where
  "ax_len ax (a, b, c, d) = (if ax = 0 then a else if ax = 1 then b else if ax = 2 then c else d)"

fun ax_put :: "nat \<Rightarrow> nat \<Rightarrow> idx4 \<Rightarrow> idx4" where
  "ax_put ax v (a, b, c, d) =
     (if ax = 0 then (v, b, c, d) else if ax = 1 then (a, v, c, d)
      else if ax = 2 then (a, b, v, d) else (a, b, c, v))"

text \<open>
  The discrete Fourier sum along one axis; \<open>dir\<close> is \<open>-1\<close> for the forward and
  \<open>1\<close> for the inverse transform.
\<close>

definition dft_axis :: "real \<Rightarrow> nat \<Rightarrow> complex nd4 \<Rightarrow> idx4 \<Rightarrow> complex" where
  "dft_axis dir ax X i =
     (\<Sum>m<ax_len ax (shape4 X).
        item4 X (ax_put ax m i) *
        cis (dir * 2 * pi * real (ax_len ax i) * real m / real (ax_len ax (shape4 X))))"

text \<open>\<open>np.fft.fft\<close> and \<open>np.fft.ifft\<close> along one axis; an empty axis is a ValueError.\<close>

definition np_fft :: "nat \<Rightarrow> complex nd4 \<Rightarrow> complex nd4 outcome" where
  "np_fft ax X =
     (if 4 \<le> ax then Raise (Other ''AxisError'')
      else if ax_len ax (shape4 X) < 1 then Raise ValueError
      else Return (Nd4 (shape4 X) (dft_axis (- 1) ax X)))"

definition np_ifft :: "nat \<Rightarrow> complex nd4 \<Rightarrow> complex nd4 outcome" where
  "np_ifft ax X =
     (if 4 \<le> ax then Raise (Other ''AxisError'')
      else if ax_len ax (shape4 X) < 1 then Raise ValueError
      else Return (Nd4 (shape4 X) (\<lambda>i. dft_axis 1 ax X i / of_nat (ax_len ax (shape4 X)))))"

text \<open>
  \<open>np.fft.fft2(X, axes=(ax0, ax1))\<close> and \<open>np.fft.ifft2\<close>: one transform per axis,
  the last axis first.
\<close>

definition np_fft2 :: "complex nd4 \<Rightarrow> nat \<times> nat \<Rightarrow> complex nd4 outcome" where
  "np_fft2 X axes = and_then (np_fft (snd axes) X) (np_fft (fst axes))"

definition np_ifft2 :: "complex nd4 \<Rightarrow> nat \<times> nat \<Rightarrow> complex nd4 outcome" where
  "np_ifft2 X axes = and_then (np_ifft (snd axes) X) (np_ifft (fst axes))"

text \<open>\<open>np.roll(X, sh, axis=ax)\<close>: entry \<open>i\<close> of the result is entry \<open>(i - sh) mod n\<close>.\<close>

definition np_roll :: "int \<Rightarrow> nat \<Rightarrow> 'a nd4 \<Rightarrow> 'a nd4" where
  "np_roll sh ax X =
     Nd4 (shape4 X)
       (\<lambda>i. item4 X (ax_put ax (nat ((int (ax_len ax i) - sh) mod int (ax_len ax (shape4 X)))) i))"

text \<open>
  \<open>np.fft.fftshift\<close> rolls each axis by \<open>n // 2\<close>, \<open>np.fft.ifftshift\<close> by
  \<open>-(n // 2)\<close>.
\<close>

definition np_fftshift :: "'a nd4 \<Rightarrow> nat \<times> nat \<Rightarrow> 'a nd4" where
  "np_fftshift X axes =
     np_roll (int (ax_len (snd axes) (shape4 X) div 2)) (snd axes)
       (np_roll (int (ax_len (fst axes) (shape4 X) div 2)) (fst axes) X)"

definition np_ifftshift :: "'a nd4 \<Rightarrow> nat \<times> nat \<Rightarrow> 'a nd4" where
  "np_ifftshift X axes =
     np_roll (- int (ax_len (snd axes) (shape4 X) div 2)) (snd axes)
       (np_roll (- int (ax_len (fst axes) (shape4 X) div 2)) (fst axes) X)"

text \<open>\<open>np.fft.fft2\<close> of an array of rank 2, over both axes.\<close>

definition np_fft2_rank2 :: "complex nd2 \<Rightarrow> complex nd2 outcome" where
  "np_fft2_rank2 X =
     (case shape2 X of (n0, n1) \<Rightarrow>
        if n0 < 1 \<or> n1 < 1 then Raise ValueError
        else Return (Nd2 (n0, n1) (\<lambda>(k, l).
               \<Sum>m<n0. \<Sum>n<n1. item2 X (m, n) *
                 cis (- 2 * pi * (real k * real m / real n0 + real l * real n / real n1)))))"

section \<open>WDD Reconstructor\<close>

subsection \<open>Step 2: the normalization scalar, lines 159 to 161\<close>

text \<open>
  \<open>np.mean(X, axis=(2,3))\<close>: the mean of an empty detector frame is nan.
\<close>

definition np_mean_23 :: "real nd4 \<Rightarrow> real nd2 outcome" where
  "np_mean_23 X =
     (case shape4 X of (n0, n1, n2, n3) \<Rightarrow>
        if n2 * n3 = 0 \<and> n0 * n1 \<noteq> 0 then NonFinite
        else Return (Nd2 (n0, n1)
               (\<lambda>(a, b). (\<Sum>c<n2. \<Sum>d<n3. item4 X (a, b, c, d)) / real (n2 * n3))))"

definition np_sum2 :: "real nd2 \<Rightarrow> real" where
  "np_sum2 X = (case shape2 X of (n0, n1) \<Rightarrow> \<Sum>a<n0. \<Sum>b<n1. item2 X (a, b))"

text \<open>\<open>np.abs(X) ** 2\<close>\<close>

definition abs_sq2 :: "complex nd2 \<Rightarrow> real nd2" where
  "abs_sq2 X = Nd2 (shape2 X) (\<lambda>i. (cmod (item2 X i))\<^sup>2)"

definition abs_sq4 :: "complex nd4 \<Rightarrow> real nd4" where
  "abs_sq4 X = Nd4 (shape4 X) (\<lambda>i. (cmod (item4 X i))\<^sup>2)"

text \<open>
  Division and \<open>** 0.5\<close> on NumPy float scalars: a zero divisor gives inf or nan, a
  negative base gives nan; neither raises.
\<close>

definition np_true_divide :: "real \<Rightarrow> real \<Rightarrow> real outcome" where
  "np_true_divide a b = (if b = 0 then NonFinite else Return (a / b))"

definition np_power_half :: "real \<Rightarrow> real outcome" where
  "np_power_half x = (if x < 0 then NonFinite else Return (sqrt x))"

definition wdd_intensity_changer :: "complex nd2 \<Rightarrow> real nd4 \<Rightarrow> real outcome" where
  "wdd_intensity_changer electron_beam data4D =
     and_then (np_mean_23 data4D) (\<lambda>means.
       let diffractogram_intensity = np_sum2 means;
           mainbeam_intensity = np_sum2 (abs_sq2 electron_beam)
       in and_then (np_true_divide mainbeam_intensity diffractogram_intensity) np_power_half)"

subsection \<open>Steps 4 to 6: the three domain transforms, lines 163 to 165\<close>

definition of_real4 :: "real nd4 \<Rightarrow> complex nd4" where
  "of_real4 X = Nd4 (shape4 X) (\<lambda>i. of_real (item4 X i))"

definition wdd_dataFT :: "real nd4 \<Rightarrow> complex nd4 outcome" where
  "wdd_dataFT data4D =
     and_then (np_fft2 (of_real4 data4D) (2, 3)) (\<lambda>f. Return (np_fftshift f (2, 3)))"

definition wdd_dataIFT :: "complex nd4 \<Rightarrow> complex nd4 outcome" where
  "wdd_dataIFT dataFT =
     and_then (np_ifft2 dataFT (0, 1)) (\<lambda>f. Return (np_ifftshift f (0, 1)))"

definition wdd_inverse_wigner :: "complex nd4 \<Rightarrow> complex nd4 outcome" where
  "wdd_inverse_wigner wigner_beam =
     and_then (np_ifft2 wigner_beam (0, 1)) (\<lambda>f. Return (np_ifftshift f (0, 1)))"

subsection \<open>Step 7: the combined tensor, line 166\<close>

definition wdd_Psi_product :: "complex nd4 \<Rightarrow> complex nd4 \<Rightarrow> complex nd4 outcome" where
  "wdd_Psi_product dataIFT inverse_wigner = psi_multiply dataIFT (conj4 inverse_wigner)"

definition wdd_Psi_Wigner :: "sparsifier \<Rightarrow> complex nd4 \<Rightarrow> complex nd4 \<Rightarrow> complex nd4 outcome" where
  "wdd_Psi_Wigner sparse4D dataIFT inverse_wigner =
     and_then (wdd_Psi_product dataIFT inverse_wigner) (\<lambda>product.
       sparse4D product (abs_sq4 inverse_wigner))"

subsection \<open>Steps 8 to 10: extraction, reference beam, final transform, lines 167 and 168\<close>

text \<open>\<open>int(n / 2)\<close>: true division, then truncation.\<close>

definition int_half :: "nat \<Rightarrow> nat" where
  "int_half n = nat \<lfloor>real n / 2\<rfloor>"

definition wdd_slice :: "complex nd4 \<Rightarrow> complex nd2 outcome" where
  "wdd_slice Psi_Wigner =
     (case shape4 Psi_Wigner of (w0, w1, w2, w3) \<Rightarrow>
        getitem_first Psi_Wigner (1 + int_half w0) (1 + int_half w1))"

text \<open>
  A name that is not local is looked up in the globals of the module when the line runs.
  The module binds the six imports and its three functions and nothing else.
\<close>

datatype pyobj = Module string | Function string | Array "complex nd2"

definition load_global :: "(string \<rightharpoonup> pyobj) \<Rightarrow> string \<Rightarrow> pyobj outcome" where
  "load_global g name = (case g name of None \<Rightarrow> Raise (NameError name) | Some v \<Rightarrow> Return v)"

definition module_globals :: "string \<rightharpoonup> pyobj" where
  "module_globals = map_of
     [(''np'', Module ''numpy''), (''numba'', Module ''numba''),
      (''scnd'', Module ''scipy.ndimage''), (''iu'', Module ''util.image_utils''),
      (''gp'', Module ''beam.gen_probe''), (''pu'', Module ''pty.pty_utils''),
      (''psi_multiply'', Function ''psi_multiply''),
      (''fft_wigner_probe'', Function ''fft_wigner_probe''),
      (''wdd'', Function ''wdd'')]"

definition wdd_deconv :: "(string \<rightharpoonup> pyobj) \<Rightarrow> complex nd4 \<Rightarrow> complex nd2 outcome" where
  "wdd_deconv g Psi_Wigner =
     and_then (wdd_slice Psi_Wigner) (\<lambda>slice.
     and_then (load_global g ''test_beam'') (\<lambda>test_beam.
       case test_beam of
         Array beam \<Rightarrow> and_then (np_multiply slice beam) np_fft2_rank2
       | _ \<Rightarrow> Raise TypeError))"

subsection \<open>The entry point, lines 156 to 169\<close>

definition wdd ::
  "(string \<rightharpoonup> pyobj) \<Rightarrow> probe_model \<Rightarrow> shifter \<Rightarrow> sparsifier \<Rightarrow>
   real nd4 \<Rightarrow> real \<Rightarrow> real \<Rightarrow> nat \<times> nat \<Rightarrow> real \<Rightarrow> complex nd2 outcome" where
  "wdd g make_probe shift sparse4D data4D aperture_mrad voltage image_size calibration_pm =
     (let image_y = fst image_size;
          image_x = snd image_size
      in and_then (make_probe [PyFloat aperture_mrad, PyFloat voltage,
                               PyTuple [PyInt (int image_x), PyInt (int image_y)],
                               PyFloat calibration_pm]) (\<lambda>electron_beam.
         and_then (wdd_intensity_changer electron_beam data4D) (\<lambda>intensity_changer.
         and_then (fft_wigner_probe make_probe shift aperture_mrad voltage
                     (image_x, image_y) calibration_pm intensity_changer) (\<lambda>wigner_beam.
         and_then (wdd_dataFT data4D) (\<lambda>dataFT.
         and_then (wdd_dataIFT dataFT) (\<lambda>dataIFT.
         and_then (wdd_inverse_wigner wigner_beam) (\<lambda>inverse_wigner.
         and_then (wdd_Psi_Wigner sparse4D dataIFT inverse_wigner) (\<lambda>Psi_Wigner.
         wdd_deconv g Psi_Wigner))))))))"

section \<open>Auxiliary definitions for the properties\<close>

text \<open>
  The entries of the conjugate product of two arrays, restricted to the positions a loop
  has already stored; the other positions still hold the initial zero.
\<close>

definition prod_upto :: "complex nd4 \<Rightarrow> complex nd4 \<Rightarrow> (idx4 \<Rightarrow> bool) \<Rightarrow> idx4 \<Rightarrow> complex" where
  "prod_upto A B stored i =
     (if inside4 (shape4 A) i \<and> stored i then item4 A i * cnj (item4 B i) else 0)"

text \<open>Reading one entry of a returned array; \<open>None\<close> when nothing was returned.\<close>

definition entry2 :: "'a nd2 outcome \<Rightarrow> idx2 \<Rightarrow> 'a option" where
  "entry2 r i = (case r of Return X \<Rightarrow> if inside2 (shape2 X) i then Some (item2 X i) else None
                 | _ \<Rightarrow> None)"

definition entry4 :: "'a nd4 outcome \<Rightarrow> idx4 \<Rightarrow> 'a option" where
  "entry4 r i = (case r of Return X \<Rightarrow> if inside4 (shape4 X) i then Some (item4 X i) else None
                 | _ \<Rightarrow> None)"

subsection \<open>The spec's wording, for comparison\<close>

text \<open>
  The slice as the spec words it: index \<open>center + 1\<close> along axes 2 and 3, the
  first two axes ranging fully.
\<close>

definition spec_slice :: "complex nd4 \<Rightarrow> complex nd2 outcome" where
  "spec_slice Psi_Wigner =
     (case shape4 Psi_Wigner of (w0, w1, w2, w3) \<Rightarrow>
        getitem_last Psi_Wigner (1 + w2 div 2) (1 + w3 div 2))"

text \<open>
  The normalization as the spec words it: the denominator is the detector-frame sum of
  the intensity, averaged over the scan positions.
\<close>

definition spec_diffractogram_intensity :: "real nd4 \<Rightarrow> real" where
  "spec_diffractogram_intensity X =
     (case shape4 X of (n0, n1, n2, n3) \<Rightarrow>
        (\<Sum>a<n0. \<Sum>b<n1. (\<Sum>c<n2. \<Sum>d<n3. item4 X (a, b, c, d))) / real (n0 * n1))"

definition spec_intensity_changer :: "complex nd2 \<Rightarrow> real nd4 \<Rightarrow> real" where
  "spec_intensity_changer electron_beam data4D =
     sqrt (np_sum2 (abs_sq2 electron_beam) / spec_diffractogram_intensity data4D)"

text \<open>
  The transforms as the spec words them: the 2D discrete Fourier sum over a pair of axes
  (\<open>dir = -1\<close> forward, \<open>dir = 1\<close> inverse, the latter still to be divided by
  the number of points), and the index a centering shift and an inverse centering shift
  read from: after the centering shift, frequency 0 sits at index \<open>n div 2\<close>.
\<close>

definition dft2 :: "real \<Rightarrow> nat \<Rightarrow> nat \<Rightarrow> (nat \<Rightarrow> nat \<Rightarrow> complex) \<Rightarrow> nat \<Rightarrow> nat \<Rightarrow> complex" where
  "dft2 dir N M f k l =
     (\<Sum>c<N. \<Sum>d<M. f c d * cis (dir * 2 * pi * (real k * real c / real N + real l * real d / real M)))"

definition centered_from :: "nat \<Rightarrow> nat \<Rightarrow> nat" where
  "centered_from n k = (k + n - n div 2) mod n"

definition uncentered_from :: "nat \<Rightarrow> nat \<Rightarrow> nat" where
  "uncentered_from n k = (k + n div 2) mod n"

subsection \<open>Closed forms\<close>

text \<open>The two sums of step 2, written out, and the size of a detector frame.\<close>

definition sum_of_means :: "real nd4 \<Rightarrow> real" where
  "sum_of_means X =
     (case shape4 X of (n0, n1, n2, n3) \<Rightarrow>
        \<Sum>a<n0. \<Sum>b<n1. (\<Sum>c<n2. \<Sum>d<n3. item4 X (a, b, c, d)) / real (n2 * n3))"

definition probe_energy :: "complex nd2 \<Rightarrow> real" where
  "probe_energy B = (case shape2 B of (m0, m1) \<Rightarrow> \<Sum>p<m0. \<Sum>q<m1. (cmod (item2 B (p, q)))\<^sup>2)"

definition frame_size :: "'a nd4 \<Rightarrow> nat" where
  "frame_size X = (case shape4 X of (n0, n1, n2, n3) \<Rightarrow> n2 * n3)"

text \<open>
  The entries of the Wigner tensor at the grid positions a loop has already stored, given
  the shifted copies \<open>S x y\<close> of the probe \<open>P\<close>.
\<close>

definition wigner_upto ::
  "complex nd2 \<Rightarrow> (nat \<Rightarrow> nat \<Rightarrow> complex nd2) \<Rightarrow> (nat \<times> nat \<Rightarrow> bool) \<Rightarrow> idx4 \<Rightarrow> complex" where
  "wigner_upto P S stored i =
     (case i of (a, b, x, y) \<Rightarrow>
        if inside4 (fst (shape2 P), snd (shape2 P), fst (shape2 P), snd (shape2 P)) i \<and> stored (x, y)
        then cnj (item2 P (a, b)) * item2 (S x y) (a, b) else 0)"

text \<open>The summed magnitude of the slice \<open>W[:, :, x, y]\<close>.\<close>

definition slice_magnitude :: "complex nd4 \<Rightarrow> nat \<Rightarrow> nat \<Rightarrow> real" where
  "slice_magnitude W x y =
     (case shape4 W of (n0, n1, n2, n3) \<Rightarrow> \<Sum>a<n0. \<Sum>b<n1. cmod (item4 W (a, b, x, y)))"

subsection \<open>Sample inputs\<close>

definition sample_A :: "complex nd4" where
  "sample_A = Nd4 (1, 1, 2, 2) (\<lambda>(a, b, c, d). Complex (real c + 1) (real d))"

definition sample_B :: "complex nd4" where
  "sample_B = Nd4 (1, 1, 2, 2) (\<lambda>(a, b, c, d). Complex 2 (real c - real d))"

definition sample_Psi :: "complex nd4" where
  "sample_Psi = Nd4 (3, 3, 3, 3) (\<lambda>(a, b, c, d). Complex (real (a + 10 * b)) (real (c + 10 * d)))"

definition sample_dataIFT :: "complex nd4" where
  "sample_dataIFT = Nd4 (1, 1, 1, 1) (\<lambda>_. 1)"

definition sample_inverse_wigner :: "complex nd4" where
  "sample_inverse_wigner = Nd4 (1, 1, 1, 1) (\<lambda>_. \<i>)"

definition sample_beam :: "complex nd2" where
  "sample_beam = Nd2 (4, 1) (\<lambda>_. 1)"

definition dark_beam :: "complex nd2" where
  "dark_beam = Nd2 (4, 1) (\<lambda>_. 0)"

definition sample_data :: "real nd4" where
  "sample_data = Nd4 (1, 1, 1, 4) (\<lambda>_. 1)"

definition zero_data :: "real nd4" where
  "zero_data = Nd4 (1, 1, 1, 4) (\<lambda>_. 0)"

text \<open>Stand-ins for the collaborators: a probe model that answers every call with the
  sample beam, a shift and a sparsifier that hand their input back.\<close>

definition sample_make_probe :: probe_model where
  "sample_make_probe args = Return sample_beam"

definition sample_shift :: shifter where
  "sample_shift X offset = Return X"

definition sample_sparse4D :: sparsifier where
  "sample_sparse4D X reference = Return X"

text \<open>
  A stand-in for the interpolating shift: translation by whole pixels (the offset rounded
  down) with zero fill, \<open>output[i] = input[i - offset]\<close>.
\<close>

definition translate2 :: "complex nd2 \<Rightarrow> real \<times> real \<Rightarrow> complex nd2" where
  "translate2 X off =
     (case shape2 X of (n0, n1) \<Rightarrow>
        Nd2 (n0, n1) (\<lambda>(a, b).
          let a' = int a - \<lfloor>fst off\<rfloor>; b' = int b - \<lfloor>snd off\<rfloor>
          in if 0 \<le> a' \<and> a' < int n0 \<and> 0 \<le> b' \<and> b' < int n1
             then item2 X (nat a', nat b') else 0))"

definition translate_shift :: shifter where
  "translate_shift X off = Return (translate2 X off)"

text \<open>
  A shifter that shifts nothing and reports the offset it was asked for in every entry
  of its result.
\<close>

definition report_offset :: shifter where
  "report_offset X off = Return (Nd2 (shape2 X) (\<lambda>_. Complex (fst off) (snd off)))"

text \<open>A probe of two columns, 2 in the first and 1 in the second.\<close>

definition sample_wavefunction :: "real \<Rightarrow> real \<Rightarrow> real \<Rightarrow> idx2 \<Rightarrow> idx2 \<Rightarrow> complex" where
  "sample_wavefunction a v c shp i = (if snd i = 0 then 2 else 1)"

definition sample_tb :: "complex nd2" where
  "sample_tb = Nd2 (2, 2) (sample_wavefunction 1 1 1 (2, 2))"

definition sample_P :: "complex nd2" where
  "sample_P = Nd2 (2, 2) (\<lambda>i. item2 sample_tb i / of_real 1)"



text \<open>A probe model that answers every call with a 3 x 3 probe of ones, and a dataset
  of ones.\<close>

definition ones_probe_model :: probe_model where
  "ones_probe_model args = Return (Nd2 (3, 3) (\<lambda>_. 1))"

definition ones_data :: "real nd4" where
  "ones_data = Nd4 (3, 3, 3, 3) (\<lambda>_. 1)"

section \<open>Properties\<close>

subsection \<open>Iteration and indexing\<close>

lemma and_then_Return [simp]: "and_then (Return x) f = f x"
  by (simp add: and_then_def)

lemma and_then_NonFinite [simp]: "and_then NonFinite f = NonFinite"
  by (simp add: and_then_def)

lemma and_then_Raise [simp]: "and_then (Raise e) f = Raise e"
  by (simp add: and_then_def)

lemma for_each_upt_inv:
  assumes step: "\<And>i s. i < n \<Longrightarrow> I i s \<Longrightarrow> \<exists>s'. body i s = Return s' \<and> I (Suc i) s'"
  shows "I k s \<Longrightarrow> k \<le> n \<Longrightarrow> \<exists>s'. for_each [k..<n] body s = Return s' \<and> I n s'"
proof (induction "n - k" arbitrary: k s)
  case 0
  then show ?case by simp
next
  case (Suc m)
  then have lt: "k < n" by simp
  from step[OF lt Suc.prems(1)] obtain s' where b: "body k s = Return s'" and i: "I (Suc k) s'"
    by blast
  from Suc.hyps(2) have m: "m = n - Suc k" by simp
  from Suc.hyps(1)[OF m i] lt obtain s'' where "for_each [Suc k..<n] body s' = Return s''" "I n s''"
    by auto
  with b lt show ?case by (simp add: upt_conv_Cons)
qed

lemma bidx_inside: "a < n \<Longrightarrow> bidx n a = a"
  by (auto simp: bidx_def)

lemma bcast_dim_same [simp]: "bcast_dim n n = Some n"
  by (simp add: bcast_dim_def)

lemma psi_multiply_body_same_shape:
  assumes "shape4 A = (s0, s1, s2, s3)" "shape4 B = (s0, s1, s2, s3)" "shape4 M = (s0, s1, s2, s3)"
    and "ii < s2" "jj < s3"
  shows "psi_multiply_body A B jj ii M =
     Return (Nd4 (s0, s1, s2, s3) (\<lambda>(a, b, c, d).
        if a < s0 \<and> b < s1 \<and> c = ii \<and> d = jj
        then item4 A (a, b, c, d) * cnj (item4 B (a, b, c, d)) else item4 M (a, b, c, d)))"
  using assms
  by (auto simp: psi_multiply_body_def getitem_last_def np_multiply_def conj2_def setitem_last_def
        bidx_inside fun_eq_iff)

lemma psi_inner:
  assumes sh: "shape4 A = (s0, s1, s2, s3)" "shape4 B = (s0, s1, s2, s3)" and jj: "jj < s3"
    and M: "shape4 M = (s0, s1, s2, s3)" "item4 M = prod_upto A B (\<lambda>(a, b, c, d). d < jj)"
  shows "\<exists>M'. for_each [0..<s2] (psi_multiply_body A B jj) M = Return M' \<and>
           shape4 M' = (s0, s1, s2, s3) \<and> item4 M' = prod_upto A B (\<lambda>(a, b, c, d). d < Suc jj)"
proof -
  let ?I = "\<lambda>ii M. shape4 M = (s0, s1, s2, s3) \<and>
              item4 M = prod_upto A B (\<lambda>(a, b, c, d). d < jj \<or> (d = jj \<and> c < ii))"
  have "\<exists>M'. for_each [0..<s2] (psi_multiply_body A B jj) M = Return M' \<and> ?I s2 M'"
  proof (rule for_each_upt_inv[where I = ?I])
    fix ii M0 assume ii: "ii < s2" and I: "?I ii M0"
    show "\<exists>s'. psi_multiply_body A B jj ii M0 = Return s' \<and> ?I (Suc ii) s'"
      using I sh jj ii
      by (subst psi_multiply_body_same_shape[OF sh _ ii jj])
         (auto simp: prod_upto_def fun_eq_iff less_Suc_eq)
  next
    show "?I 0 M" using M by simp
  qed simp
  then obtain M' where r: "for_each [0..<s2] (psi_multiply_body A B jj) M = Return M'"
    and I: "?I s2 M'" by blast
  have "item4 M' = prod_upto A B (\<lambda>(a, b, c, d). d < Suc jj)"
    using I sh by (auto simp: prod_upto_def fun_eq_iff less_Suc_eq)
  with r I show ?thesis by blast
qed

lemma psi_multiply_same_shape:
  assumes sh: "shape4 B = shape4 A"
  shows "\<exists>M. psi_multiply A B = Return M \<and> shape4 M = shape4 A \<and>
             item4 M = prod_upto A B (\<lambda>_. True)"
proof -
  obtain s0 s1 s2 s3 where A: "shape4 A = (s0, s1, s2, s3)" by (metis prod_cases4)
  with sh have B: "shape4 B = (s0, s1, s2, s3)" by simp
  let ?I = "\<lambda>jj M. shape4 M = (s0, s1, s2, s3) \<and> item4 M = prod_upto A B (\<lambda>(a, b, c, d). d < jj)"
  have "\<exists>M'. for_each [0..<s3] (\<lambda>jj. for_each [0..<s2] (psi_multiply_body A B jj))
           (zeros4 (s0, s1, s2, s3)) = Return M' \<and> ?I s3 M'"
  proof (rule for_each_upt_inv[where I = ?I])
    fix jj M0 assume "jj < s3" "?I jj M0"
    then show "\<exists>s'. for_each [0..<s2] (psi_multiply_body A B jj) M0 = Return s' \<and> ?I (Suc jj) s'"
      using psi_inner[OF A B, of jj M0] by blast
  next
    show "?I 0 (zeros4 (s0, s1, s2, s3))"
      by (auto simp: zeros4_def prod_upto_def fun_eq_iff)
  qed simp
  then obtain M' where r: "psi_multiply A B = Return M'" and I: "?I s3 M'"
    by (auto simp: psi_multiply_def A)
  have "item4 M' = prod_upto A B (\<lambda>_. True)"
    using I A by (auto simp: prod_upto_def fun_eq_iff)
  with r I A show ?thesis by simp
qed


subsection \<open>Pointwise Conjugate Multiplier\<close>

text \<open>
  C6. For operands \<open>A\<close> and \<open>B\<close> of one shape, \<open>psi_multiply\<close> returns
  a new array of that shape whose entry at every position is the entry of \<open>A\<close>
  times the conjugate of the entry of \<open>B\<close> at the same position, so no entry
  depends on another position; \<open>psi_multiply A A\<close> holds the squared magnitudes,
  which are real and not negative.
\<close>

theorem psi_multiply_elementwise:
  assumes "shape4 B = shape4 A"
  shows "(\<exists>M. psi_multiply A B = Return M \<and> shape4 M = shape4 A \<and>
              (\<forall>i. inside4 (shape4 A) i \<longrightarrow> item4 M i = item4 A i * cnj (item4 B i))) \<and>
         (\<exists>M. psi_multiply A A = Return M \<and> shape4 M = shape4 A \<and>
              (\<forall>i. inside4 (shape4 A) i \<longrightarrow>
                 item4 M i = of_real ((cmod (item4 A i))\<^sup>2) \<and>
                 Im (item4 M i) = 0 \<and> 0 \<le> Re (item4 M i)))"
proof
  from psi_multiply_same_shape[OF assms]
  show "\<exists>M. psi_multiply A B = Return M \<and> shape4 M = shape4 A \<and>
              (\<forall>i. inside4 (shape4 A) i \<longrightarrow> item4 M i = item4 A i * cnj (item4 B i))"
    by (auto simp: prod_upto_def)
next
  from psi_multiply_same_shape[of A A] obtain M where
    M: "psi_multiply A A = Return M" "shape4 M = shape4 A" "item4 M = prod_upto A A (\<lambda>_. True)"
    by auto
  have "item4 M i = of_real ((cmod (item4 A i))\<^sup>2) \<and> Im (item4 M i) = 0 \<and> 0 \<le> Re (item4 M i)"
    if "inside4 (shape4 A) i" for i
    using that M(3) by (simp add: prod_upto_def complex_norm_square [symmetric])
  with M show "\<exists>M. psi_multiply A A = Return M \<and> shape4 M = shape4 A \<and>
              (\<forall>i. inside4 (shape4 A) i \<longrightarrow>
                 item4 M i = of_real ((cmod (item4 A i))\<^sup>2) \<and>
                 Im (item4 M i) = 0 \<and> 0 \<le> Re (item4 M i))"
    by blast
qed

theorem psi_multiply_elementwise_witness:
  "shape4 sample_B = shape4 sample_A \<and> inside4 (shape4 sample_A) (0, 0, 1, 1) \<and>
   (\<exists>M. psi_multiply sample_A sample_B = Return M \<and> item4 M (0, 0, 1, 1) = Complex 4 2) \<and>
   (\<exists>M. psi_multiply sample_A sample_A = Return M \<and> item4 M (0, 0, 1, 1) = 5)"
proof -
  have sh: "shape4 sample_B = shape4 sample_A"
    by (simp add: sample_A_def sample_B_def)
  have ins: "inside4 (shape4 sample_A) (0, 0, 1, 1)"
    by (simp add: sample_A_def)
  have a: "item4 sample_A (0, 0, 1, 1) * cnj (item4 sample_B (0, 0, 1, 1)) = Complex 4 2"
    by (simp add: sample_A_def sample_B_def complex_eq_iff)
  have b: "(of_real ((cmod (item4 sample_A (0, 0, 1, 1)))\<^sup>2) :: complex) = 5"
    by (simp add: sample_A_def cmod_def)
  from psi_multiply_elementwise[OF sh] ins a b sh show ?thesis
    by metis
qed

subsection \<open>WDD Reconstructor\<close>

lemma int_half_div: "int_half n = n div 2"
proof -
  have "\<lfloor>real n / real (2::nat)\<rfloor> = int (n div 2)"
    by (rule floor_divide_of_nat_eq)
  then show ?thesis by (simp add: int_half_def)
qed

lemma load_test_beam: "load_global module_globals ''test_beam'' = Raise (NameError ''test_beam'')"
  by (simp add: load_global_def module_globals_def)

lemma wdd_deconv_raises: "wdd_deconv module_globals Psi \<noteq> Return r"
  by (cases "wdd_slice Psi") (auto simp: wdd_deconv_def and_then_def load_test_beam)

text \<open>
  C8. Line 158 calls the probe model with four arguments, the third being the pair
  \<open>(image_x, image_y)\<close>; a probe model with the five parameters of the spec
  rejects that call, so \<open>wdd\<close> raises TypeError at its first step on every input.
\<close>

theorem wdd_probe_call_type_error:
  "wdd g (make_probe_spec wavefunction) shift sparse4D data4D aperture_mrad voltage image_size
     calibration_pm = Raise TypeError"
  by (simp add: wdd_def Let_def make_probe_spec_def and_then_def)

text \<open>
  C2, as stated, fails: on a 3 x 3 x 3 x 3 tensor whose entry at \<open>(a, b, c, d)\<close> is
  \<open>(a + 10 b) + (c + 10 d) i\<close>, entry \<open>(0, 0)\<close> of the slice the code takes is
  \<open>22\<close> (axes 0 and 1 fixed at 2), while the slice fixed along axes 2 and 3 has
  \<open>22 i\<close> there.
\<close>

theorem wdd_slice_axes_counterexample:
  "entry2 (wdd_slice sample_Psi) (0, 0) = Some (Complex 22 0) \<and>
   entry2 (spec_slice sample_Psi) (0, 0) = Some (Complex 0 22)"
  by (simp add: entry2_def wdd_slice_def spec_slice_def sample_Psi_def getitem_first_def
        getitem_last_def int_half_div)

text \<open>
  C2, amended. The slice is taken at index \<open>1 + n div 2\<close> along axes 0 and 1, with
  axes 2 and 3 ranging fully; when axis 0 or axis 1 is shorter than 3 that index is out
  of range and the read raises IndexError.
\<close>

theorem wdd_slice_first_axes:
  assumes "shape4 Psi = (w0, w1, w2, w3)"
  shows "wdd_slice Psi =
           (if 3 \<le> w0 \<and> 3 \<le> w1
            then Return (Nd2 (w2, w3) (\<lambda>(c, d). item4 Psi (1 + w0 div 2, 1 + w1 div 2, c, d)))
            else Raise IndexError)"
proof -
  have "(1 + w div 2 < w) = (3 \<le> w)" for w :: nat by arith
  then show ?thesis using assms
    by (simp add: wdd_slice_def getitem_first_def int_half_div)
qed

theorem wdd_slice_first_axes_witness:
  "shape4 sample_Psi = (3, 3, 3, 3) \<and>
   wdd_slice sample_Psi =
     Return (Nd2 (3, 3) (\<lambda>(c, d). item4 sample_Psi (1 + 3 div 2, 1 + 3 div 2, c, d)))"
proof -
  have sh: "shape4 sample_Psi = (3, 3, 3, 3)" by (simp add: sample_Psi_def)
  from wdd_slice_first_axes[OF sh] sh show ?thesis by simp
qed

lemma psi_multiply_entry:
  assumes "shape4 B = shape4 A" "inside4 (shape4 A) i"
  shows "entry4 (psi_multiply A B) i = Some (item4 A i * cnj (item4 B i))"
  using psi_multiply_same_shape[OF assms(1)] assms(2)
  by (auto simp: entry4_def prod_upto_def)

text \<open>
  C3, as stated, fails: for the one-entry tensors \<open>1\<close> and \<open>i\<close> the product
  computed at line 166 is \<open>i\<close>, while the multiplier applied to the two tensors
  themselves gives \<open>- i\<close>.
\<close>

theorem wdd_Psi_conjugation_counterexample:
  "entry4 (wdd_Psi_product sample_dataIFT sample_inverse_wigner) (0, 0, 0, 0) = Some \<i> \<and>
   entry4 (psi_multiply sample_dataIFT sample_inverse_wigner) (0, 0, 0, 0) = Some (- \<i>)"
  by (simp add: wdd_Psi_product_def psi_multiply_entry conj4_def sample_dataIFT_def
        sample_inverse_wigner_def)

text \<open>
  C3, amended. Line 166 hands the multiplier the conjugate of the Inverse Wigner Tensor,
  and the multiplier conjugates its second operand again: for tensors of one shape the
  product is \<open>dataIFT * inverse_wigner\<close> entry by entry, with no conjugation left,
  and Psi_Wigner is that product sparsified against the squared magnitude of the
  Inverse Wigner Tensor.
\<close>

theorem wdd_Psi_Wigner_unconjugated:
  assumes "shape4 inverse_wigner = shape4 dataIFT"
  shows "\<exists>P. wdd_Psi_product dataIFT inverse_wigner = Return P \<and>
             shape4 P = shape4 dataIFT \<and>
             (\<forall>i. inside4 (shape4 dataIFT) i \<longrightarrow>
                  item4 P i = item4 dataIFT i * item4 inverse_wigner i) \<and>
             wdd_Psi_Wigner sparse4D dataIFT inverse_wigner =
               sparse4D P (Nd4 (shape4 inverse_wigner) (\<lambda>i. (cmod (item4 inverse_wigner i))\<^sup>2))"
proof -
  have "shape4 (conj4 inverse_wigner) = shape4 dataIFT"
    using assms by (simp add: conj4_def)
  from psi_multiply_same_shape[OF this] obtain P where
    P: "psi_multiply dataIFT (conj4 inverse_wigner) = Return P" "shape4 P = shape4 dataIFT"
       "item4 P = prod_upto dataIFT (conj4 inverse_wigner) (\<lambda>_. True)"
    by blast
  have "item4 P i = item4 dataIFT i * item4 inverse_wigner i" if "inside4 (shape4 dataIFT) i" for i
    using that P(3) by (simp add: prod_upto_def conj4_def)
  with P show ?thesis
    by (auto simp: wdd_Psi_product_def wdd_Psi_Wigner_def abs_sq4_def)
qed

theorem wdd_Psi_Wigner_unconjugated_witness:
  "shape4 sample_inverse_wigner = shape4 sample_dataIFT \<and>
   inside4 (shape4 sample_dataIFT) (0, 0, 0, 0) \<and>
   (\<exists>P. wdd_Psi_product sample_dataIFT sample_inverse_wigner = Return P \<and>
        item4 P (0, 0, 0, 0) = \<i> \<and>
        wdd_Psi_Wigner (\<lambda>X ref. Return X) sample_dataIFT sample_inverse_wigner = Return P)"
proof -
  have sh: "shape4 sample_inverse_wigner = shape4 sample_dataIFT"
    by (simp add: sample_dataIFT_def sample_inverse_wigner_def)
  have ins: "inside4 (shape4 sample_dataIFT) (0, 0, 0, 0)"
    by (simp add: sample_dataIFT_def)
  have v: "item4 sample_dataIFT (0, 0, 0, 0) * item4 sample_inverse_wigner (0, 0, 0, 0) = \<i>"
    by (simp add: sample_dataIFT_def sample_inverse_wigner_def)
  from wdd_Psi_Wigner_unconjugated[OF sh, of "\<lambda>X ref. Return X"] ins v sh show ?thesis
    by metis
qed

subsection \<open>The normalization scalar\<close>

lemma probe_energy_eq: "np_sum2 (abs_sq2 B) = probe_energy B"
  by (simp add: np_sum2_def abs_sq2_def probe_energy_def split: prod.splits)

lemma probe_energy_nonneg: "0 \<le> probe_energy B"
  by (auto simp: probe_energy_def split: prod.splits intro!: sum_nonneg)

lemma probe_energy_pos_iff:
  "0 < probe_energy B \<longleftrightarrow> (\<exists>i. inside2 (shape2 B) i \<and> item2 B i \<noteq> 0)"
proof -
  obtain m0 m1 where sh: "shape2 B = (m0, m1)" by (cases "shape2 B")
  have "probe_energy B = 0 \<longleftrightarrow> (\<forall>p<m0. \<forall>q<m1. item2 B (p, q) = 0)"
    by (auto simp: probe_energy_def sh sum_nonneg_eq_0_iff sum_nonneg)
  with probe_energy_nonneg[of B] show ?thesis
    using sh by (auto simp: less_le)
qed

lemma sum_of_means_frame0: "frame_size X = 0 \<Longrightarrow> sum_of_means X = 0"
  by (auto simp: frame_size_def sum_of_means_def split: prod.splits)

lemma wdd_intensity_changer_closed:
  "wdd_intensity_changer electron_beam data4D =
     (if frame_size data4D = 0 \<or> sum_of_means data4D = 0
         \<or> probe_energy electron_beam / sum_of_means data4D < 0
      then NonFinite
      else Return (sqrt (probe_energy electron_beam / sum_of_means data4D)))"
proof -
  obtain n0 n1 n2 n3 where sh: "shape4 data4D = (n0, n1, n2, n3)" by (metis prod_cases4)
  show ?thesis
  proof (cases "n2 * n3 = 0")
    case True
    then have z: "sum_of_means data4D = 0"
      using sh by (auto simp: sum_of_means_def)
    show ?thesis
    proof (cases "n0 * n1 = 0")
      case True
      with \<open>n2 * n3 = 0\<close> sh z show ?thesis
        by (auto simp: wdd_intensity_changer_def np_mean_23_def np_sum2_def np_true_divide_def
              frame_size_def Let_def)
    next
      case False
      with \<open>n2 * n3 = 0\<close> sh show ?thesis
        by (simp add: wdd_intensity_changer_def np_mean_23_def and_then_def frame_size_def)
    qed
  next
    case False
    then show ?thesis using sh
      by (simp add: wdd_intensity_changer_def np_mean_23_def np_sum2_def np_true_divide_def
            np_power_half_def Let_def frame_size_def sum_of_means_def and_then_def
            probe_energy_eq[unfolded np_sum2_def])
  qed
qed


text \<open>
  C4, as stated, fails: for one scan position, a detector frame of four pixels of
  intensity 1 and a probe of four entries 1, the code returns 2 (the denominator is the
  mean of the frame, 1), while the denominator the claim describes is the sum of the
  frame, 4, which gives 1.
\<close>

theorem wdd_intensity_denominator_counterexample:
  "wdd_intensity_changer sample_beam sample_data = Return 2 \<and>
   spec_intensity_changer sample_beam sample_data = 1"
  by (simp add: wdd_intensity_changer_closed frame_size_def sum_of_means_def probe_energy_def
        sample_beam_def sample_data_def spec_intensity_changer_def
        spec_diffractogram_intensity_def np_sum2_def abs_sq2_def)

text \<open>
  C4, amended. The scalar is the square root of the sum of the squared magnitudes of the
  probe divided by the sum, over the scan positions, of the intensity averaged over the
  detector frame (for a detector frame that is not empty and a positive denominator).
\<close>

theorem wdd_intensity_changer_formula:
  assumes "shape4 data4D = (n0, n1, n2, n3)" and "shape2 electron_beam = (m0, m1)"
    and "0 < n2 * n3"
    and "0 < (\<Sum>a<n0. \<Sum>b<n1. (\<Sum>c<n2. \<Sum>d<n3. item4 data4D (a, b, c, d)) / real (n2 * n3))"
  shows "wdd_intensity_changer electron_beam data4D =
           Return (sqrt ((\<Sum>p<m0. \<Sum>q<m1. (cmod (item2 electron_beam (p, q)))\<^sup>2) /
                         (\<Sum>a<n0. \<Sum>b<n1.
                            (\<Sum>c<n2. \<Sum>d<n3. item4 data4D (a, b, c, d)) / real (n2 * n3))))"
proof -
  have e: "0 \<le> probe_energy electron_beam" by (rule probe_energy_nonneg)
  have d: "0 < sum_of_means data4D" using assms by (simp add: sum_of_means_def)
  from e d have "\<not> probe_energy electron_beam / sum_of_means data4D < 0"
    by (simp add: not_less)
  with d assms(1,3) have "wdd_intensity_changer electron_beam data4D =
      Return (sqrt (probe_energy electron_beam / sum_of_means data4D))"
    by (simp add: wdd_intensity_changer_closed frame_size_def)
  then show ?thesis using assms(1,2)
    by (simp add: probe_energy_def sum_of_means_def)
qed

theorem wdd_intensity_changer_formula_witness:
  "shape4 sample_data = (1, 1, 1, 4) \<and> shape2 sample_beam = (4, 1) \<and>
   wdd_intensity_changer sample_beam sample_data =
     Return (sqrt ((\<Sum>p<4. \<Sum>q<1. (cmod (item2 sample_beam (p, q)))\<^sup>2) /
                   (\<Sum>a<1. \<Sum>b<1. (\<Sum>c<1. \<Sum>d<4. item4 sample_data (a, b, c, d)) / real (1 * 4))))"
proof -
  have sh: "shape4 sample_data = (1, 1, 1, 4)" by (simp add: sample_data_def)
  have sb: "shape2 sample_beam = (4, 1)" by (simp add: sample_beam_def)
  have fr: "(0::nat) < 1 * 4" by simp
  have pos: "0 < (\<Sum>a<1. \<Sum>b<1. (\<Sum>c<1. \<Sum>d<4. item4 sample_data (a, b, c, d)) / real (1 * 4))"
    by (simp add: sample_data_def)
  from wdd_intensity_changer_formula[OF sh sb fr pos] sh sb show ?thesis by simp
qed

text \<open>
  C5, as stated, fails: on a dataset of zeros step 2 raises nothing, the division by
  zero yields a non-finite float and the run goes on, so the reconstruction does not stop
  with InvalidInputError; and a probe of zeros with a positive dataset gives the scalar 0,
  which is not strictly positive.
\<close>

theorem wdd_zero_intensity_counterexample:
  "wdd_intensity_changer sample_beam zero_data = NonFinite \<and>
   wdd module_globals sample_make_probe sample_shift sample_sparse4D zero_data 1 1 (1, 4) 1
     = NonFinite \<and>
   wdd_intensity_changer dark_beam sample_data = Return 0"
proof -
  have a: "wdd_intensity_changer sample_beam zero_data = NonFinite"
    by (simp add: wdd_intensity_changer_closed sum_of_means_def zero_data_def)
  have b: "wdd_intensity_changer dark_beam sample_data = Return 0"
    by (simp add: wdd_intensity_changer_closed frame_size_def sum_of_means_def probe_energy_def
          dark_beam_def sample_data_def)
  from a b show ?thesis
    by (simp add: wdd_def sample_make_probe_def)
qed

text \<open>
  C5, amended. Step 2 never raises: the code has no check. When the summed mean
  intensity is exactly zero the division yields a non-finite float and the run goes on.
  A strictly positive intensity does not make the scalar strictly positive: for the
  probe of zeros and the dataset of ones it is 0.
\<close>

theorem wdd_intensity_changer_no_error:
  "wdd_intensity_changer electron_beam data4D \<noteq> Raise e \<and>
   (sum_of_means data4D = 0 \<longrightarrow> wdd_intensity_changer electron_beam data4D = NonFinite) \<and>
   0 < sum_of_means sample_data \<and> wdd_intensity_changer dark_beam sample_data = Return 0"
proof -
  have "wdd_intensity_changer dark_beam sample_data = Return 0"
    by (simp add: wdd_intensity_changer_closed frame_size_def sum_of_means_def probe_energy_def
          dark_beam_def sample_data_def)
  moreover have "0 < sum_of_means sample_data"
    by (simp add: sum_of_means_def sample_data_def)
  ultimately show ?thesis
    by (simp add: wdd_intensity_changer_closed)
qed

theorem wdd_intensity_changer_no_error_witness:
  "sum_of_means zero_data = 0 \<and>
   wdd_intensity_changer sample_beam zero_data = NonFinite \<and>
   wdd_intensity_changer sample_beam zero_data \<noteq> Raise (Other ''InvalidInputError'')"
proof -
  have z: "sum_of_means zero_data = 0" by (simp add: sum_of_means_def zero_data_def)
  from wdd_intensity_changer_no_error[of sample_beam zero_data "Other ''InvalidInputError''"] z
  show ?thesis by blast
qed

subsection \<open>Wigner Probe Synthesizer\<close>

lemma grid_offset_even: "even n \<Longrightarrow> grid_offset k n = real_of_int (int k - int (n div 2))"
  by (auto simp: grid_offset_def elim!: evenE)

lemma grid_offset_center: "even n \<Longrightarrow> grid_offset (n div 2) n = 0"
  by (simp add: grid_offset_even)

lemma fft_wigner_probe_body_value:
  assumes "shape2 P = (w, h)" "shape2 Sxy = (w, h)" "shape4 Wg = (w, h, w, h)"
    and "x < w" "y < h"
    and "shift P (- grid_offset x w, - grid_offset y h) = Return Sxy"
  shows "fft_wigner_probe_body shift P w h x y Wg =
     Return (Nd4 (w, h, w, h) (\<lambda>(a, b, c, d).
        if a < w \<and> b < h \<and> c = x \<and> d = y
        then cnj (item2 P (a, b)) * item2 Sxy (a, b) else item4 Wg (a, b, c, d)))"
  using assms
  by (auto simp: fft_wigner_probe_body_def Let_def np_multiply_def conj2_def setitem_last_def
        bidx_inside fun_eq_iff)

lemma wigner_inner:
  assumes P: "shape2 P = (w, h)"
    and S: "\<And>x y. x < w \<Longrightarrow> y < h \<Longrightarrow>
              shape2 (S x y) = (w, h) \<and>
              shift P (- grid_offset x w, - grid_offset y h) = Return (S x y)"
    and x: "x < w"
    and W: "shape4 Wg = (w, h, w, h)" "item4 Wg = wigner_upto P S (\<lambda>(c, d). c < x)"
  shows "\<exists>W'. for_each [0..<h] (fft_wigner_probe_body shift P w h x) Wg = Return W' \<and>
           shape4 W' = (w, h, w, h) \<and> item4 W' = wigner_upto P S (\<lambda>(c, d). c < Suc x)"
proof -
  let ?I = "\<lambda>y W. shape4 W = (w, h, w, h) \<and>
              item4 W = wigner_upto P S (\<lambda>(c, d). c < x \<or> (c = x \<and> d < y))"
  have "\<exists>W'. for_each [0..<h] (fft_wigner_probe_body shift P w h x) Wg = Return W' \<and> ?I h W'"
  proof (rule for_each_upt_inv[where I = ?I])
    fix y W0 assume y: "y < h" and I: "?I y W0"
    from S[OF x y] have s: "shape2 (S x y) = (w, h)"
      "shift P (- grid_offset x w, - grid_offset y h) = Return (S x y)" by auto
    from I have w0: "shape4 W0 = (w, h, w, h)" by simp
    show "\<exists>s'. fft_wigner_probe_body shift P w h x y W0 = Return s' \<and> ?I (Suc y) s'"
      using I P x y
      by (subst fft_wigner_probe_body_value[where shift = shift, OF P s(1) w0 x y s(2)])
         (auto simp: wigner_upto_def fun_eq_iff less_Suc_eq)
  next
    show "?I 0 Wg" using W by simp
  qed simp
  then obtain W' where r: "for_each [0..<h] (fft_wigner_probe_body shift P w h x) Wg = Return W'"
    and I: "?I h W'" by blast
  have "item4 W' = wigner_upto P S (\<lambda>(c, d). c < Suc x)"
    using I P by (auto simp: wigner_upto_def fun_eq_iff less_Suc_eq)
  with r I show ?thesis by blast
qed

lemma wigner_grid:
  assumes P: "shape2 P = (w, h)"
    and S: "\<And>x y. x < w \<Longrightarrow> y < h \<Longrightarrow>
              shape2 (S x y) = (w, h) \<and>
              shift P (- grid_offset x w, - grid_offset y h) = Return (S x y)"
  shows "\<exists>W. for_each [0..<w] (\<lambda>x. for_each [0..<h] (fft_wigner_probe_body shift P w h x))
              (zeros4 (w, h, w, h)) = Return W \<and>
           shape4 W = (w, h, w, h) \<and> item4 W = wigner_upto P S (\<lambda>_. True)"
proof -
  let ?I = "\<lambda>x W. shape4 W = (w, h, w, h) \<and> item4 W = wigner_upto P S (\<lambda>(c, d). c < x)"
  have "\<exists>W'. for_each [0..<w] (\<lambda>x. for_each [0..<h] (fft_wigner_probe_body shift P w h x))
           (zeros4 (w, h, w, h)) = Return W' \<and> ?I w W'"
  proof (rule for_each_upt_inv[where I = ?I])
    fix x W0 assume "x < w" "?I x W0"
    then show "\<exists>s'. for_each [0..<h] (fft_wigner_probe_body shift P w h x) W0 = Return s' \<and> ?I (Suc x) s'"
      using wigner_inner[where shift = shift and S = S and x = x and Wg = W0, OF P S] by blast
  next
    show "?I 0 (zeros4 (w, h, w, h))"
      by (auto simp: zeros4_def wigner_upto_def fun_eq_iff)
  qed simp
  then obtain W' where r: "for_each [0..<w] (\<lambda>x. for_each [0..<h] (fft_wigner_probe_body shift P w h x))
           (zeros4 (w, h, w, h)) = Return W'" and I: "?I w W'"
    by blast
  have "item4 W' = wigner_upto P S (\<lambda>_. True)"
    using I P by (auto simp: wigner_upto_def fun_eq_iff)
  with r I show ?thesis by blast
qed

lemma fft_wigner_probe_value:
  assumes mp: "make_probe [PyFloat ap, PyFloat v, PyInt (int w), PyInt (int h), PyFloat cal] = Return tb"
    and tb: "shape2 tb = (w, h)" and s: "s \<noteq> 0"
    and P: "P = Nd2 (w, h) (\<lambda>i. item2 tb i / of_real s)"
    and S: "\<And>x y. x < w \<Longrightarrow> y < h \<Longrightarrow>
              shape2 (S x y) = (w, h) \<and>
              shift P (- grid_offset x w, - grid_offset y h) = Return (S x y)"
  shows "\<exists>W. fft_wigner_probe make_probe shift ap v (h, w) cal s = Return W \<and>
           shape4 W = (w, h, w, h) \<and> item4 W = wigner_upto P S (\<lambda>_. True)"
proof -
  have shP: "shape2 P = (w, h)" using P by simp
  have td: "true_divide2 tb s = Return P"
    using s tb P by (simp add: true_divide2_def)
  from wigner_grid[where shift = shift and S = S, OF shP S] show ?thesis
    by (simp add: fft_wigner_probe_def Let_def mp td)
qed

lemma translate_shift_interpolating: "interpolating_shift translate_shift"
  by (auto simp: interpolating_shift_def translate_shift_def translate2_def Let_def
        split: prod.splits)

lemma interpolating_shift_whole:
  assumes "interpolating_shift shift" "shape2 X = (w, h)" "a < w" "b < h"
    and "shift X (real_of_int dx, real_of_int dy) = Return Z"
  shows "item2 Z (a, b) = item2 (translate2 X (real_of_int dx, real_of_int dy)) (a, b)"
proof -
  from assms have "item2 Z (a, b) =
          (if 0 \<le> int a - dx \<and> int a - dx < int (fst (shape2 X)) \<and>
              0 \<le> int b - dy \<and> int b - dy < int (snd (shape2 X))
           then item2 X (nat (int a - dx), nat (int b - dy)) else 0)"
    unfolding interpolating_shift_def by (metis inside2.simps)
  then show ?thesis using assms(2)
    by (simp add: translate2_def Let_def)
qed

lemma fft_wigner_probe_interpolating:
  assumes mp: "make_probe [PyFloat ap, PyFloat v, PyInt (int w), PyInt (int h), PyFloat cal] = Return tb"
    and tb: "shape2 tb = (w, h)" and s: "s \<noteq> 0"
    and P: "P = Nd2 (w, h) (\<lambda>i. item2 tb i / of_real s)"
    and c: "interpolating_shift shift"
  shows "\<exists>W S. fft_wigner_probe make_probe shift ap v (h, w) cal s = Return W \<and>
           shape4 W = (w, h, w, h) \<and> item4 W = wigner_upto P S (\<lambda>_. True) \<and>
           (\<forall>x y. shape2 (S x y) = (w, h) \<and>
                  shift P (- grid_offset x w, - grid_offset y h) = Return (S x y))"
proof -
  have shP: "shape2 P = (w, h)" using P by simp
  from c have "\<forall>x y. \<exists>Z. shift P (- grid_offset x w, - grid_offset y h) = Return Z \<and> shape2 Z = shape2 P"
    unfolding interpolating_shift_def by blast
  then obtain S where S: "\<And>x y. shift P (- grid_offset x w, - grid_offset y h) = Return (S x y) \<and>
      shape2 (S x y) = shape2 P"
    by metis
  have S': "shape2 (S x y) = (w, h) \<and> shift P (- grid_offset x w, - grid_offset y h) = Return (S x y)"
    for x y using S[of x y] shP by simp
  from fft_wigner_probe_value[where make_probe = make_probe and shift = shift and S = S,
         OF mp tb s P S']
  show ?thesis using S' by blast
qed


lemma interpolating_shift_entries:
  assumes c: "interpolating_shift shift" and sh: "shape2 X = (w, h)" and ev: "even w" "even h"
    and r: "shift X (- grid_offset x w, - grid_offset y h) = Return Z" and ab: "a < w" "b < h"
  shows "item2 Z (a, b) =
     (if 0 \<le> int a + int x - int (w div 2) \<and> int a + int x - int (w div 2) < int w \<and>
         0 \<le> int b + int y - int (h div 2) \<and> int b + int y - int (h div 2) < int h
      then item2 X (nat (int a + int x - int (w div 2)), nat (int b + int y - int (h div 2)))
      else 0)"
proof -
  have ox: "- grid_offset x w = real_of_int (int (w div 2) - int x)"
    using ev(1) by (simp add: grid_offset_even)
  have oy: "- grid_offset y h = real_of_int (int (h div 2) - int y)"
    using ev(2) by (simp add: grid_offset_even)
  have ins: "inside2 (shape2 X) (a, b)" using sh ab by simp
  from r have r': "shift X (real_of_int (int (w div 2) - int x), real_of_int (int (h div 2) - int y)) = Return Z"
    by (simp only: ox oy)
  from c r' ins have "item2 Z (a, b) =
          (if 0 \<le> int a - (int (w div 2) - int x) \<and> int a - (int (w div 2) - int x) < int (fst (shape2 X)) \<and>
              0 \<le> int b - (int (h div 2) - int y) \<and> int b - (int (h div 2) - int y) < int (snd (shape2 X))
           then item2 X (nat (int a - (int (w div 2) - int x)), nat (int b - (int (h div 2) - int y))) else 0)"
    unfolding interpolating_shift_def by blast
  moreover have "int a - (int (w div 2) - int x) = int a + int x - int (w div 2)"
    "int b - (int (h div 2) - int y) = int b + int y - int (h div 2)" by simp_all
  ultimately show ?thesis by (simp only: sh fst_conv snd_conv)
qed

text \<open>
  C7. Let the probe model answer the five-argument call with an array \<open>tb\<close> of
  shape \<open>(w, h)\<close>, let the normalization scalar \<open>s\<close> be other than zero and let
  the shift fulfil the contract of the interpolating shift. Then \<open>fft_wigner_probe\<close>
  returns a tensor of shape \<open>(w, h, w, h)\<close>; for every grid position \<open>(x, y)\<close>
  with \<open>x < w\<close> and \<open>y < h\<close> its slice along the last two axes is, entry by
  entry, \<open>conj(P) * shift(P, -(x - w/2, y - h/2))\<close> with \<open>P = tb / s\<close>. For even
  \<open>w\<close> and \<open>h\<close> all offsets are whole pixels and the shifted copy is the
  translation of \<open>P\<close> by \<open>(x - w/2, y - h/2)\<close> with zeros shifted in from beyond
  the edge: nothing wraps around.
\<close>

theorem fft_wigner_probe_slices:
  assumes "make_probe [PyFloat ap, PyFloat v, PyInt (int w), PyInt (int h), PyFloat cal] = Return tb"
    and "shape2 tb = (w, h)" and "s \<noteq> 0" and "interpolating_shift shift"
  shows "\<exists>W. fft_wigner_probe make_probe shift ap v (h, w) cal s = Return W \<and>
           shape4 W = (w, h, w, h) \<and>
           (\<forall>x y. x < w \<and> y < h \<longrightarrow>
              (\<exists>Z. shift (Nd2 (w, h) (\<lambda>i. item2 tb i / of_real s))
                          (- (real x - real w / 2), - (real y - real h / 2)) = Return Z \<and>
                   (\<forall>a b. a < w \<and> b < h \<longrightarrow>
                      item4 W (a, b, x, y) = cnj (item2 tb (a, b) / of_real s) * item2 Z (a, b)))) \<and>
           (even w \<and> even h \<longrightarrow>
              (\<forall>x y a b. x < w \<and> y < h \<and> a < w \<and> b < h \<longrightarrow>
                 item4 W (a, b, x, y) =
                   cnj (item2 tb (a, b) / of_real s) *
                   (if 0 \<le> int a + int x - int (w div 2) \<and> int a + int x - int (w div 2) < int w \<and>
                       0 \<le> int b + int y - int (h div 2) \<and> int b + int y - int (h div 2) < int h
                    then item2 tb (nat (int a + int x - int (w div 2)),
                                   nat (int b + int y - int (h div 2))) / of_real s
                    else 0)))"
proof -
  define P where "P = Nd2 (w, h) (\<lambda>i. item2 tb i / of_real s)"
  have shP: "shape2 P = (w, h)" by (simp add: P_def)
  from fft_wigner_probe_interpolating[where make_probe = make_probe and shift = shift, OF assms(1-3) P_def assms(4)] obtain W S where
    W: "fft_wigner_probe make_probe shift ap v (h, w) cal s = Return W"
       "shape4 W = (w, h, w, h)" "item4 W = wigner_upto P S (\<lambda>_. True)"
    and S: "\<And>x y. shift P (- grid_offset x w, - grid_offset y h) = Return (S x y)"
    by blast
  have entry: "item4 W (a, b, x, y) = cnj (item2 tb (a, b) / of_real s) * item2 (S x y) (a, b)"
    if "x < w" "y < h" "a < w" "b < h" for x y a b
    using that by (simp add: W(3) wigner_upto_def P_def)
  have part1: "\<exists>Z. shift (Nd2 (w, h) (\<lambda>i. item2 tb i / of_real s))
                          (- (real x - real w / 2), - (real y - real h / 2)) = Return Z \<and>
                   (\<forall>a b. a < w \<and> b < h \<longrightarrow>
                      item4 W (a, b, x, y) = cnj (item2 tb (a, b) / of_real s) * item2 Z (a, b))"
    if "x < w \<and> y < h" for x y
  proof (intro exI conjI allI impI)
    show "shift (Nd2 (w, h) (\<lambda>i. item2 tb i / of_real s))
            (- (real x - real w / 2), - (real y - real h / 2)) = Return (S x y)"
      using S[of x y] by (simp add: P_def grid_offset_def)
    show "item4 W (a, b, x, y) = cnj (item2 tb (a, b) / of_real s) * item2 (S x y) (a, b)"
      if "a < w \<and> b < h" for a b
      using entry that \<open>x < w \<and> y < h\<close> by blast
  qed
  have part2: "item4 W (a, b, x, y) =
                   cnj (item2 tb (a, b) / of_real s) *
                   (if 0 \<le> int a + int x - int (w div 2) \<and> int a + int x - int (w div 2) < int w \<and>
                       0 \<le> int b + int y - int (h div 2) \<and> int b + int y - int (h div 2) < int h
                    then item2 tb (nat (int a + int x - int (w div 2)),
                                   nat (int b + int y - int (h div 2))) / of_real s
                    else 0)"
    if ev: "even w \<and> even h" and r: "x < w \<and> y < h \<and> a < w \<and> b < h" for x y a b
  proof -
    from ev r have "item2 (S x y) (a, b) =
     (if 0 \<le> int a + int x - int (w div 2) \<and> int a + int x - int (w div 2) < int w \<and>
         0 \<le> int b + int y - int (h div 2) \<and> int b + int y - int (h div 2) < int h
      then item2 P (nat (int a + int x - int (w div 2)), nat (int b + int y - int (h div 2)))
      else 0)"
      by (intro interpolating_shift_entries[OF assms(4) shP _ _ S]) simp_all
    then show ?thesis using entry r by (simp add: P_def)
  qed
  from W(1,2) part1 part2 show ?thesis by blast
qed


theorem fft_wigner_probe_slices_witness:
  "make_probe_spec sample_wavefunction
      [PyFloat 1, PyFloat 1, PyInt (int 2), PyInt (int 2), PyFloat 1] = Return sample_tb \<and>
   shape2 sample_tb = (2, 2) \<and> (2::real) \<noteq> 0 \<and> interpolating_shift translate_shift \<and>
   (\<exists>W. fft_wigner_probe (make_probe_spec sample_wavefunction) translate_shift 1 1 (2, 2) 1 2
          = Return W \<and>
        shape4 W = (2, 2, 2, 2) \<and> item4 W (0, 1, 1, 0) = 1 / 2 \<and> item4 W (0, 0, 1, 0) = 0)"
proof -
  have h1: "make_probe_spec sample_wavefunction
      [PyFloat 1, PyFloat 1, PyInt (int 2), PyInt (int 2), PyFloat 1] = Return sample_tb"
    by (simp add: make_probe_spec_def sample_tb_def)
  have h2: "shape2 sample_tb = (2, 2)" by (simp add: sample_tb_def)
  have h3: "(2::real) \<noteq> 0" by simp
  note h4 = translate_shift_interpolating
  from fft_wigner_probe_slices[where make_probe = "make_probe_spec sample_wavefunction"
         and shift = translate_shift, OF h1 h2 h3 h4]
  obtain W where W: "fft_wigner_probe (make_probe_spec sample_wavefunction) translate_shift 1 1 (2, 2) 1 2
          = Return W" "shape4 W = (2, 2, 2, 2)"
    and E: "even (2::nat) \<and> even (2::nat) \<longrightarrow>
              (\<forall>x y a b. x < 2 \<and> y < 2 \<and> a < 2 \<and> b < 2 \<longrightarrow>
                 item4 W (a, b, x, y) =
                   cnj (item2 sample_tb (a, b) / of_real 2) *
                   (if 0 \<le> int a + int x - int (2 div 2) \<and> int a + int x - int (2 div 2) < int 2 \<and>
                       0 \<le> int b + int y - int (2 div 2) \<and> int b + int y - int (2 div 2) < int 2
                    then item2 sample_tb (nat (int a + int x - int (2 div 2)),
                                   nat (int b + int y - int (2 div 2))) / of_real 2
                    else 0))"
    by blast
  from E have e: "\<And>x y a b. x < 2 \<Longrightarrow> y < 2 \<Longrightarrow> a < 2 \<Longrightarrow> b < 2 \<Longrightarrow>
                 item4 W (a, b, x, y) =
                   cnj (item2 sample_tb (a, b) / of_real 2) *
                   (if 0 \<le> int a + int x - int (2 div 2) \<and> int a + int x - int (2 div 2) < int 2 \<and>
                       0 \<le> int b + int y - int (2 div 2) \<and> int b + int y - int (2 div 2) < int 2
                    then item2 sample_tb (nat (int a + int x - int (2 div 2)),
                                   nat (int b + int y - int (2 div 2))) / of_real 2
                    else 0)"
    by simp
  have a: "item4 W (0, 1, 1, 0) = 1 / 2"
    by (subst e) (simp_all add: sample_tb_def sample_wavefunction_def)
  have b: "item4 W (0, 0, 1, 0) = 0"
    by (subst e) (simp_all add: sample_tb_def sample_wavefunction_def)
  from h1 h2 h4 W a b show ?thesis by auto
qed

subsection \<open>The domain transforms\<close>

lemma nat_int_mod: "nat (int a mod int n) = a mod n"
  by (metis nat_int zmod_int)

lemma roll_forward_index:
  "nat ((int k - int (n div 2)) mod int n) = centered_from n k"
proof -
  have le: "n div 2 \<le> k + n" by simp
  have "(int k - int (n div 2)) mod int n = (int k - int (n div 2) + int n) mod int n"
    by simp
  also have "int k - int (n div 2) + int n = int (k + n - n div 2)"
    using le by (simp add: of_nat_diff)
  finally show ?thesis
    by (simp only: nat_int_mod centered_from_def)
qed

lemma roll_backward_index:
  "nat ((int k + int (n div 2)) mod int n) = uncentered_from n k"
proof -
  have "int k + int (n div 2) = int (k + n div 2)" by simp
  then show ?thesis
    by (simp only: nat_int_mod uncentered_from_def)
qed

lemma dft_two_axes:
  "(\<Sum>c<N. (\<Sum>d<M. f c d * cis (dir * 2 * pi * real l * real d / real M)) *
            cis (dir * 2 * pi * real k * real c / real N)) = dft2 dir N M f k l"
proof -
  have eq: "f c d * cis (dir * 2 * pi * real l * real d / real M) * cis (dir * 2 * pi * real k * real c / real N)
      = f c d * cis (dir * 2 * pi * (real k * real c / real N + real l * real d / real M))" for c d
    by (simp add: cis_mult algebra_simps add_divide_distrib)
  show ?thesis
    unfolding dft2_def sum_distrib_right
    by (intro sum.cong refl eq)
qed


lemma idft_two_axes:
  "(\<Sum>c<N. (\<Sum>d<M. f c d * cis (dir * 2 * pi * real l * real d / real M)) / of_nat M *
            cis (dir * 2 * pi * real k * real c / real N)) / of_nat N
     = dft2 dir N M f k l / (of_nat N * of_nat M)"
proof -
  have "(\<Sum>c<N. (\<Sum>d<M. f c d * cis (dir * 2 * pi * real l * real d / real M)) / of_nat M *
            cis (dir * 2 * pi * real k * real c / real N))
      = (\<Sum>c<N. (\<Sum>d<M. f c d * cis (dir * 2 * pi * real l * real d / real M)) *
            cis (dir * 2 * pi * real k * real c / real N) / of_nat M)"
    by (simp only: times_divide_eq_left)
  also have "\<dots> = dft2 dir N M f k l / of_nat M"
    by (simp only: sum_divide_distrib[symmetric] dft_two_axes)
  finally show ?thesis
    by (simp only: divide_divide_eq_left mult.commute)
qed

lemma dft_axes_23:
  assumes "shape4 Y = (n0, n1, n2, n3)"
  shows "dft_axis dir 2 (Nd4 (n0, n1, n2, n3) (dft_axis dir 3 Y)) (a, b, k, l) =
           dft2 dir n2 n3 (\<lambda>c d. item4 Y (a, b, c, d)) k l"
proof -
  have "dft_axis dir 2 (Nd4 (n0, n1, n2, n3) (dft_axis dir 3 Y)) (a, b, k, l) =
        (\<Sum>c<n2. (\<Sum>d<n3. item4 Y (a, b, c, d) * cis (dir * 2 * pi * real l * real d / real n3)) *
            cis (dir * 2 * pi * real k * real c / real n2))"
    using assms by (simp add: dft_axis_def)
  then show ?thesis by (simp only: dft_two_axes)
qed

lemma idft_axes_01:
  assumes "shape4 Y = (n0, n1, n2, n3)"
  shows "dft_axis dir 0 (Nd4 (n0, n1, n2, n3) (\<lambda>i. dft_axis dir 1 Y i / of_nat n1)) (i, j, c, d)
           / of_nat n0 =
         dft2 dir n0 n1 (\<lambda>p q. item4 Y (p, q, c, d)) i j / (of_nat n0 * of_nat n1)"
proof -
  have "dft_axis dir 0 (Nd4 (n0, n1, n2, n3) (\<lambda>i. dft_axis dir 1 Y i / of_nat n1)) (i, j, c, d) =
        (\<Sum>p<n0. (\<Sum>q<n1. item4 Y (p, q, c, d) * cis (dir * 2 * pi * real j * real q / real n1)) / of_nat n1 *
            cis (dir * 2 * pi * real i * real p / real n0))"
    using assms by (simp add: dft_axis_def)
  then show ?thesis by (simp only: idft_two_axes)
qed

lemma np_fft2_23_value:
  assumes "shape4 Y = (n0, n1, n2, n3)" "0 < n2" "0 < n3"
  shows "np_fft2 Y (2, 3) =
     Return (Nd4 (n0, n1, n2, n3) (\<lambda>(a, b, k, l).
       dft2 (- 1) n2 n3 (\<lambda>c d. item4 Y (a, b, c, d)) k l))"
proof -
  have 1: "np_fft 3 Y = Return (Nd4 (n0, n1, n2, n3) (dft_axis (- 1) 3 Y))"
    using assms by (simp add: np_fft_def)
  have 2: "np_fft 2 (Nd4 (n0, n1, n2, n3) (dft_axis (- 1) 3 Y)) =
      Return (Nd4 (n0, n1, n2, n3) (dft_axis (- 1) 2 (Nd4 (n0, n1, n2, n3) (dft_axis (- 1) 3 Y))))"
    using assms by (simp add: np_fft_def)
  have 3: "dft_axis (- 1) 2 (Nd4 (n0, n1, n2, n3) (dft_axis (- 1) 3 Y)) =
      (\<lambda>(a, b, k, l). dft2 (- 1) n2 n3 (\<lambda>c d. item4 Y (a, b, c, d)) k l)"
    by (rule ext) (simp only: split_paired_all prod.case dft_axes_23[OF assms(1)])
  show ?thesis
    by (simp only: np_fft2_def fst_conv snd_conv 1 2 3 and_then_Return)
qed

lemma np_ifft2_01_value:
  assumes "shape4 Y = (n0, n1, n2, n3)" "0 < n0" "0 < n1"
  shows "np_ifft2 Y (0, 1) =
     Return (Nd4 (n0, n1, n2, n3) (\<lambda>(i, j, c, d).
       dft2 1 n0 n1 (\<lambda>p q. item4 Y (p, q, c, d)) i j / (of_nat n0 * of_nat n1)))"
proof -
  have 1: "np_ifft 1 Y = Return (Nd4 (n0, n1, n2, n3) (\<lambda>i. dft_axis 1 1 Y i / of_nat n1))"
    using assms by (simp add: np_ifft_def)
  have 2: "np_ifft 0 (Nd4 (n0, n1, n2, n3) (\<lambda>i. dft_axis 1 1 Y i / of_nat n1)) =
      Return (Nd4 (n0, n1, n2, n3) (\<lambda>i.
        dft_axis 1 0 (Nd4 (n0, n1, n2, n3) (\<lambda>i. dft_axis 1 1 Y i / of_nat n1)) i / of_nat n0))"
    using assms by (simp add: np_ifft_def)
  have 3: "(\<lambda>i. dft_axis 1 0 (Nd4 (n0, n1, n2, n3) (\<lambda>i. dft_axis 1 1 Y i / of_nat n1)) i / of_nat n0) =
      (\<lambda>(i, j, c, d). dft2 1 n0 n1 (\<lambda>p q. item4 Y (p, q, c, d)) i j / (of_nat n0 * of_nat n1))"
    by (rule ext) (simp only: split_paired_all prod.case idft_axes_01[OF assms(1)])
  show ?thesis
    by (simp only: np_ifft2_def fst_conv snd_conv 1 2 3 and_then_Return)
qed

lemma np_fftshift_23_value:
  "np_fftshift (Nd4 (n0, n1, n2, n3) f) (2, 3) =
     Nd4 (n0, n1, n2, n3) (\<lambda>(a, b, k, l). f (a, b, centered_from n2 k, centered_from n3 l))"
  by (simp add: np_fftshift_def np_roll_def roll_forward_index fun_eq_iff)

lemma np_ifftshift_01_value:
  "np_ifftshift (Nd4 (n0, n1, n2, n3) f) (0, 1) =
     Nd4 (n0, n1, n2, n3) (\<lambda>(i, j, c, d). f (uncentered_from n0 i, uncentered_from n1 j, c, d))"
  by (simp add: np_ifftshift_def np_roll_def roll_backward_index fun_eq_iff)

lemma wdd_dataFT_value:
  assumes "shape4 data4D = (n0, n1, n2, n3)" "0 < n2" "0 < n3"
  shows "wdd_dataFT data4D =
     Return (Nd4 (n0, n1, n2, n3) (\<lambda>(a, b, k, l).
       dft2 (- 1) n2 n3 (\<lambda>c d. of_real (item4 data4D (a, b, c, d)))
         (centered_from n2 k) (centered_from n3 l)))"
proof -
  have sh: "shape4 (of_real4 data4D) = (n0, n1, n2, n3)"
    using assms(1) by (simp add: of_real4_def)
  show ?thesis
    unfolding wdd_dataFT_def np_fft2_23_value[OF sh assms(2,3)] and_then_Return
      np_fftshift_23_value
    by (simp add: of_real4_def)
qed

lemma ifft2_ifftshift_value:
  assumes "shape4 X = (n0, n1, n2, n3)" "0 < n0" "0 < n1"
  shows "and_then (np_ifft2 X (0, 1)) (\<lambda>f. Return (np_ifftshift f (0, 1))) =
     Return (Nd4 (n0, n1, n2, n3) (\<lambda>(i, j, c, d).
       dft2 1 n0 n1 (\<lambda>p q. item4 X (p, q, c, d))
         (uncentered_from n0 i) (uncentered_from n1 j) / (of_nat n0 * of_nat n1)))"
  unfolding np_ifft2_01_value[OF assms] and_then_Return np_ifftshift_01_value
  by simp




subsection \<open>The slice at the grid center\<close>

lemma translated_sum_bound:
  fixes f :: "nat \<times> nat \<Rightarrow> real" and dx dy :: int and w h :: nat
  defines "D \<equiv> {..<w} \<times> {..<h}"
  defines "ok \<equiv> \<lambda>(a, b). 0 \<le> int a + dx \<and> int a + dx < int w \<and> 0 \<le> int b + dy \<and> int b + dy < int h"
  defines "tr \<equiv> \<lambda>(a, b). (nat (int a + dx), nat (int b + dy))"
  shows "(\<Sum>i\<in>D. f i * (if ok i then f (tr i) else 0)) \<le> (\<Sum>i\<in>D. (f i)\<^sup>2)"
proof -
  let ?g = "\<lambda>i. if ok i then f (tr i) else 0"
  let ?D' = "{i \<in> D. ok i}"
  have fin: "finite D" by (simp add: D_def)
  have amgm: "f i * ?g i \<le> ((f i)\<^sup>2 + (?g i)\<^sup>2) / 2" for i
  proof -
    have "0 \<le> (f i - ?g i)\<^sup>2" by simp
    then show ?thesis by (simp add: power2_eq_square algebra_simps)
  qed
  have inj: "inj_on tr ?D'"
    by (auto simp: inj_on_def tr_def ok_def)
  have sub: "tr ` ?D' \<subseteq> D"
    by (auto simp: tr_def ok_def D_def)
  have "(\<Sum>i\<in>D. (?g i)\<^sup>2) = (\<Sum>i\<in>?D'. (f (tr i))\<^sup>2)"
    by (rule sum.mono_neutral_cong_right) (auto simp: fin)
  also have "\<dots> = (\<Sum>j\<in>tr ` ?D'. (f j)\<^sup>2)"
    using inj by (simp add: sum.reindex)
  also have "\<dots> \<le> (\<Sum>j\<in>D. (f j)\<^sup>2)"
    by (rule sum_mono2[OF fin sub]) simp
  finally have g: "(\<Sum>i\<in>D. (?g i)\<^sup>2) \<le> (\<Sum>j\<in>D. (f j)\<^sup>2)" .
  have "(\<Sum>i\<in>D. f i * ?g i) \<le> (\<Sum>i\<in>D. ((f i)\<^sup>2 + (?g i)\<^sup>2) / 2)"
    by (rule sum_mono) (rule amgm)
  also have "\<dots> = ((\<Sum>i\<in>D. (f i)\<^sup>2) + (\<Sum>i\<in>D. (?g i)\<^sup>2)) / 2"
    by (simp only: sum_divide_distrib[symmetric] sum.distrib)
  also have "\<dots> \<le> (\<Sum>i\<in>D. (f i)\<^sup>2)"
    using g by simp
  finally show ?thesis .
qed


lemma slice_magnitude_wigner:
  assumes "shape4 W = (w, h, w, h)" "item4 W = wigner_upto P S (\<lambda>_. True)" "shape2 P = (w, h)"
    and "x < w" "y < h"
  shows "slice_magnitude W x y =
           (\<Sum>i\<in>{..<w} \<times> {..<h}. cmod (item2 P i) * cmod (item2 (S x y) i))"
proof -
  have "slice_magnitude W x y = (\<Sum>a<w. \<Sum>b<h. cmod (item2 P (a, b)) * cmod (item2 (S x y) (a, b)))"
    using assms by (simp add: slice_magnitude_def wigner_upto_def norm_mult)
  also have "\<dots> = (\<Sum>(a, b)\<in>{..<w} \<times> {..<h}. cmod (item2 P (a, b)) * cmod (item2 (S x y) (a, b)))"
    by (rule sum.cartesian_product)
  finally show ?thesis by (simp add: case_prod_unfold)
qed

lemma translate2_cmod:
  assumes "shape2 P = (w, h)" "even w" "even h" "a < w" "b < h"
  shows "cmod (item2 (translate2 P (- grid_offset x w, - grid_offset y h)) (a, b)) =
     (if (case (a, b) of (a, b) \<Rightarrow>
            0 \<le> int a + (int x - int (w div 2)) \<and> int a + (int x - int (w div 2)) < int w \<and>
            0 \<le> int b + (int y - int (h div 2)) \<and> int b + (int y - int (h div 2)) < int h)
      then cmod (item2 P (case (a, b) of (a, b) \<Rightarrow>
             (nat (int a + (int x - int (w div 2))), nat (int b + (int y - int (h div 2))))))
      else 0)"
proof -
  have fl: "\<lfloor>- grid_offset k n\<rfloor> = int (n div 2) - int k" if "even n" for k n
  proof -
    have "- grid_offset k n = real_of_int (int (n div 2) - int k)"
      using that by (simp add: grid_offset_even)
    then show ?thesis by (simp only: floor_of_int)
  qed
  note fx = fl[OF assms(2), of x] and fy = fl[OF assms(3), of y]
  have ea: "int a - (int (w div 2) - int x) = int a + (int x - int (w div 2))" by simp
  have eb: "int b - (int (h div 2) - int y) = int b + (int y - int (h div 2))" by simp
  show ?thesis
    using assms(1) by (simp add: translate2_def fx fy ea eb Let_def)
qed


lemma wigner_center_maximal:
  assumes W: "shape4 W = (w, h, w, h)" "item4 W = wigner_upto P S (\<lambda>_. True)"
    and P: "shape2 P = (w, h)" and ev: "even w" "even h" and pos: "0 < w" "0 < h"
    and c: "\<And>a b. a < w \<Longrightarrow> b < h \<Longrightarrow> item2 (S (w div 2) (h div 2)) (a, b) = item2 P (a, b)"
    and tr: "\<And>x y a b. x < w \<Longrightarrow> y < h \<Longrightarrow> a < w \<Longrightarrow> b < h \<Longrightarrow>
               item2 (S x y) (a, b) =
               item2 (translate2 P (- grid_offset x w, - grid_offset y h)) (a, b)"
    and xy: "x < w" "y < h"
  shows "slice_magnitude W x y \<le> slice_magnitude W (w div 2) (h div 2)"
proof -
  let ?D = "{..<w} \<times> {..<h}"
  let ?f = "\<lambda>i. cmod (item2 P i)"
  let ?ok = "\<lambda>(a, b). 0 \<le> int a + (int x - int (w div 2)) \<and> int a + (int x - int (w div 2)) < int w \<and>
                0 \<le> int b + (int y - int (h div 2)) \<and> int b + (int y - int (h div 2)) < int h"
  let ?tr = "\<lambda>(a, b). (nat (int a + (int x - int (w div 2))), nat (int b + (int y - int (h div 2))))"
  have cw: "w div 2 < w" and ch: "h div 2 < h" using pos by simp_all
  have "slice_magnitude W x y = (\<Sum>i\<in>?D. ?f i * cmod (item2 (S x y) i))"
    by (rule slice_magnitude_wigner[OF W P xy])
  also have "\<dots> = (\<Sum>i\<in>?D. ?f i * (if ?ok i then ?f (?tr i) else 0))"
  proof (rule sum.cong[OF refl])
    fix i assume "i \<in> ?D"
    then obtain a b where i: "i = (a, b)" "a < w" "b < h" by auto
    show "?f i * cmod (item2 (S x y) i) = ?f i * (if ?ok i then ?f (?tr i) else 0)"
      unfolding i(1) tr[OF xy i(2,3)] translate2_cmod[OF P ev i(2,3)] ..
  qed
  also have "\<dots> \<le> (\<Sum>i\<in>?D. (?f i)\<^sup>2)"
    by (rule translated_sum_bound)
  also have "\<dots> = (\<Sum>i\<in>?D. ?f i * cmod (item2 (S (w div 2) (h div 2)) i))"
  proof (rule sum.cong[OF refl])
    fix i assume "i \<in> ?D"
    then obtain a b where i: "i = (a, b)" "a < w" "b < h" by auto
    show "(?f i)\<^sup>2 = ?f i * cmod (item2 (S (w div 2) (h div 2)) i)"
      unfolding i(1) c[OF i(2,3)] by (simp add: power2_eq_square)
  qed
  also have "\<dots> = slice_magnitude W (w div 2) (h div 2)"
    by (rule slice_magnitude_wigner[OF W P cw ch, symmetric])
  finally show ?thesis .
qed

lemma odd_offset_nonzero: "odd n \<Longrightarrow> real k - real n / 2 \<noteq> 0"
proof
  assume o: "odd n" and z: "real k - real n / 2 = 0"
  then have "real n = real (2 * k)" by simp
  then have "n = 2 * k" by (simp only: of_nat_eq_iff)
  with o show False by simp
qed

lemma report_offset_value:
  "fft_wigner_probe ones_probe_model report_offset 1 1 (3, 3) 1 1 = Return W \<Longrightarrow>
   x < 3 \<Longrightarrow> y < 3 \<Longrightarrow>
   item4 W (0, 0, x, y) = Complex (- grid_offset x 3) (- grid_offset y 3) \<and> shape4 W = (3, 3, 3, 3)"
proof -
  assume r: "fft_wigner_probe ones_probe_model report_offset 1 1 (3, 3) 1 1 = Return W"
    and xy: "x < 3" "y < 3"
  let ?tb = "Nd2 (3, 3) (\<lambda>_. 1) :: complex nd2"
  let ?P = "Nd2 (3, 3) (\<lambda>i. item2 ?tb i / of_real 1)"
  let ?S = "\<lambda>x y. Nd2 (3, 3) (\<lambda>_. Complex (- grid_offset x 3) (- grid_offset y 3))"
  have mp: "ones_probe_model [PyFloat 1, PyFloat 1, PyInt (int 3), PyInt (int 3), PyFloat 1] = Return ?tb"
    by (simp add: ones_probe_model_def)
  have sh: "shape2 (?S x y) = (3, 3) \<and>
            report_offset ?P (- grid_offset x 3, - grid_offset y 3) = Return (?S x y)" for x y
    by (simp add: report_offset_def)
  from fft_wigner_probe_value[where make_probe = ones_probe_model and shift = report_offset
         and S = ?S and P = ?P and s = 1, OF mp _ _ refl sh] r
  have W: "shape4 W = (3, 3, 3, 3)" "item4 W = wigner_upto ?P ?S (\<lambda>_. True)"
    by auto
  show ?thesis using xy by (simp add: W wigner_upto_def)
qed

text \<open>
  C10, as stated, fails: for an image of 3 x 3 pixels no grid position has the offset
  \<open>(0, 0)\<close>. With a shifter that reports the offset it is asked for and a probe of
  ones, the slices at the grid positions \<open>(0, 0)\<close>, \<open>(1, 1)\<close> and \<open>(2, 2)\<close>
  show the requested offsets \<open>(3/2, 3/2)\<close>, \<open>(1/2, 1/2)\<close> and
  \<open>(-1/2, -1/2)\<close>: the center index \<open>(1, 1)\<close> is shifted by half a pixel and its
  slice is not the self-conjugate product.
\<close>

theorem wigner_center_counterexample:
  "entry4 (fft_wigner_probe ones_probe_model report_offset 1 1 (3, 3) 1 1) (0, 0, 0, 0)
     = Some (Complex (3 / 2) (3 / 2)) \<and>
   entry4 (fft_wigner_probe ones_probe_model report_offset 1 1 (3, 3) 1 1) (0, 0, 1, 1)
     = Some (Complex (1 / 2) (1 / 2)) \<and>
   entry4 (fft_wigner_probe ones_probe_model report_offset 1 1 (3, 3) 1 1) (0, 0, 2, 2)
     = Some (Complex (- 1 / 2) (- 1 / 2))"
proof -
  let ?tb = "Nd2 (3, 3) (\<lambda>_. 1) :: complex nd2"
  have mp: "ones_probe_model [PyFloat 1, PyFloat 1, PyInt (int 3), PyInt (int 3), PyFloat 1] = Return ?tb"
    by (simp add: ones_probe_model_def)
  have "\<exists>Z. report_offset X off = Return Z \<and> shape2 Z = shape2 X" for X off
    by (simp add: report_offset_def)
  then obtain W where r: "fft_wigner_probe ones_probe_model report_offset 1 1 (3, 3) 1 1 = Return W"
    using fft_wigner_probe_value[where make_probe = ones_probe_model and shift = report_offset
         and S = "\<lambda>x y. Nd2 (3, 3) (\<lambda>_. Complex (- grid_offset x 3) (- grid_offset y 3))"
         and P = "Nd2 (3, 3) (\<lambda>i. item2 ?tb i / of_real 1)" and s = 1, OF mp _ _ refl]
    by (auto simp: report_offset_def)
  from report_offset_value[OF r, of 0 0] report_offset_value[OF r, of 1 1]
       report_offset_value[OF r, of 2 2]
  show ?thesis
    by (simp add: r entry4_def grid_offset_def)
qed


text \<open>
  C10, amended. Let the probe model answer the five-argument call with an array
  \<open>tb\<close> of shape \<open>(w, h)\<close>, let the normalization scalar \<open>s\<close> be other than
  zero and let the shift fulfil the contract of the interpolating shift. Every slice is
  \<open>conj(P) * shift(P, -(x - w/2, y - h/2))\<close> with \<open>P = tb / s\<close>. For even and
  positive \<open>w\<close> and \<open>h\<close> the grid position \<open>(w div 2, h div 2)\<close> has offset
  \<open>(0, 0)\<close>, the slice stored there is \<open>conj(P) * P\<close>, the squared magnitude of
  \<open>P\<close>, entry by entry, and the sum of the magnitudes of its entries is maximal among
  the slices of all grid positions. For odd \<open>w\<close> or odd \<open>h\<close> no grid position has
  offset \<open>(0, 0)\<close>.
\<close>

theorem wigner_center_slice:
  assumes "make_probe [PyFloat ap, PyFloat v, PyInt (int w), PyInt (int h), PyFloat cal] = Return tb"
    and "shape2 tb = (w, h)" and "s \<noteq> 0" and "interpolating_shift shift"
  shows "\<exists>W. fft_wigner_probe make_probe shift ap v (h, w) cal s = Return W \<and>
           (\<forall>x y. x < w \<and> y < h \<longrightarrow>
              (\<exists>Z. shift (Nd2 (w, h) (\<lambda>i. item2 tb i / of_real s))
                          (- (real x - real w / 2), - (real y - real h / 2)) = Return Z \<and>
                   (\<forall>a b. a < w \<and> b < h \<longrightarrow>
                      item4 W (a, b, x, y) = cnj (item2 tb (a, b) / of_real s) * item2 Z (a, b)))) \<and>
           (even w \<and> even h \<and> 0 < w \<and> 0 < h \<longrightarrow>
              real (w div 2) - real w / 2 = 0 \<and> real (h div 2) - real h / 2 = 0 \<and>
              (\<forall>a b. a < w \<and> b < h \<longrightarrow>
                 item4 W (a, b, w div 2, h div 2) =
                   of_real ((cmod (item2 tb (a, b) / of_real s))\<^sup>2)) \<and>
              (\<forall>x y. x < w \<and> y < h \<longrightarrow>
                 slice_magnitude W x y \<le> slice_magnitude W (w div 2) (h div 2))) \<and>
           (odd w \<or> odd h \<longrightarrow>
              (\<forall>x y. (real x - real w / 2, real y - real h / 2) \<noteq> (0, 0)))"
proof -
  define P where "P = Nd2 (w, h) (\<lambda>i. item2 tb i / of_real s)"
  have shP: "shape2 P = (w, h)" by (simp add: P_def)
  from fft_wigner_probe_interpolating[where make_probe = make_probe and shift = shift,
         OF assms(1-3) P_def assms(4)] obtain W S where
    W: "fft_wigner_probe make_probe shift ap v (h, w) cal s = Return W"
       "shape4 W = (w, h, w, h)" "item4 W = wigner_upto P S (\<lambda>_. True)"
    and S: "\<And>x y. shift P (- grid_offset x w, - grid_offset y h) = Return (S x y)"
    by blast
  have entry: "item4 W (a, b, x, y) = cnj (item2 tb (a, b) / of_real s) * item2 (S x y) (a, b)"
    if "x < w" "y < h" "a < w" "b < h" for x y a b
    using that by (simp add: W(3) wigner_upto_def P_def)
  have part1: "\<exists>Z. shift (Nd2 (w, h) (\<lambda>i. item2 tb i / of_real s))
                          (- (real x - real w / 2), - (real y - real h / 2)) = Return Z \<and>
                   (\<forall>a b. a < w \<and> b < h \<longrightarrow>
                      item4 W (a, b, x, y) = cnj (item2 tb (a, b) / of_real s) * item2 Z (a, b))"
    if "x < w \<and> y < h" for x y
  proof (intro exI conjI allI impI)
    show "shift (Nd2 (w, h) (\<lambda>i. item2 tb i / of_real s))
            (- (real x - real w / 2), - (real y - real h / 2)) = Return (S x y)"
      using S[of x y] by (simp add: P_def grid_offset_def)
    show "item4 W (a, b, x, y) = cnj (item2 tb (a, b) / of_real s) * item2 (S x y) (a, b)"
      if "a < w \<and> b < h" for a b
      using entry that \<open>x < w \<and> y < h\<close> by blast
  qed
  have part2: "real (w div 2) - real w / 2 = 0 \<and> real (h div 2) - real h / 2 = 0 \<and>
              (\<forall>a b. a < w \<and> b < h \<longrightarrow>
                 item4 W (a, b, w div 2, h div 2) =
                   of_real ((cmod (item2 tb (a, b) / of_real s))\<^sup>2)) \<and>
              (\<forall>x y. x < w \<and> y < h \<longrightarrow>
                 slice_magnitude W x y \<le> slice_magnitude W (w div 2) (h div 2))"
    if e: "even w \<and> even h \<and> 0 < w \<and> 0 < h"
  proof -
    from e have ev: "even w" "even h" and pos: "0 < w" "0 < h" by simp_all
    have cw: "w div 2 < w" and ch: "h div 2 < h" using pos by simp_all
    have g: "real (w div 2) - real w / 2 = 0" "real (h div 2) - real h / 2 = 0"
      using grid_offset_center[OF ev(1)] grid_offset_center[OF ev(2)]
      by (simp_all add: grid_offset_def)
    have c: "item2 (S (w div 2) (h div 2)) (a, b) = item2 P (a, b)" if "a < w" "b < h" for a b
      using interpolating_shift_entries[OF assms(4) shP ev S that] that by simp
    have tr: "item2 (S x y) (a, b) =
               item2 (translate2 P (- grid_offset x w, - grid_offset y h)) (a, b)"
      if "x < w" "y < h" "a < w" "b < h" for x y a b
    proof -
      have ox: "- grid_offset x w = real_of_int (int (w div 2) - int x)"
        using ev(1) by (simp add: grid_offset_even)
      have oy: "- grid_offset y h = real_of_int (int (h div 2) - int y)"
        using ev(2) by (simp add: grid_offset_even)
      from S[of x y] have "shift P (real_of_int (int (w div 2) - int x),
            real_of_int (int (h div 2) - int y)) = Return (S x y)"
        by (simp only: ox oy)
      from interpolating_shift_whole[OF assms(4) shP that(3,4) this] show ?thesis
        by (simp only: ox oy)
    qed
    have sq: "cnj z * z = of_real ((cmod z)\<^sup>2)" for z
      by (metis complex_norm_square mult.commute)
    have center: "item4 W (a, b, w div 2, h div 2) =
                   of_real ((cmod (item2 tb (a, b) / of_real s))\<^sup>2)"
      if "a < w \<and> b < h" for a b
    proof -
      from that have "item4 W (a, b, w div 2, h div 2) =
          cnj (item2 tb (a, b) / of_real s) * item2 P (a, b)"
        using entry[OF cw ch] c by simp
      then show ?thesis by (simp only: P_def nd2.sel sq)
    qed
    have maxi: "slice_magnitude W x y \<le> slice_magnitude W (w div 2) (h div 2)"
      if "x < w \<and> y < h" for x y
      using wigner_center_maximal[OF W(2,3) shP ev pos c tr] that by blast
    from g center maxi show ?thesis by blast
  qed
  have part3: "(real x - real w / 2, real y - real h / 2) \<noteq> (0, 0)" if "odd w \<or> odd h" for x y
    using that odd_offset_nonzero[of w x] odd_offset_nonzero[of h y] by auto
  from W(1) part1 part2 part3 show ?thesis by blast
qed


theorem wigner_center_slice_witness:
  "make_probe_spec sample_wavefunction
      [PyFloat 1, PyFloat 1, PyInt (int 2), PyInt (int 2), PyFloat 1] = Return sample_tb \<and>
   shape2 sample_tb = (2, 2) \<and> interpolating_shift translate_shift \<and>
   (even (2::nat) \<and> even (2::nat) \<and> (0::nat) < 2 \<and> (0::nat) < 2) \<and>
   (\<exists>W. fft_wigner_probe (make_probe_spec sample_wavefunction) translate_shift 1 1 (2, 2) 1 2
          = Return W \<and>
        item4 W (0, 0, 2 div 2, 2 div 2) = 1 \<and> item4 W (0, 0, 1, 0) = 0 \<and>
        slice_magnitude W 1 0 \<le> slice_magnitude W (2 div 2) (2 div 2)) \<and>
   (real 1 - real 3 / 2, real 1 - real 3 / 2) \<noteq> (0, 0)"
proof -
  have h1: "make_probe_spec sample_wavefunction
      [PyFloat 1, PyFloat 1, PyInt (int 2), PyInt (int 2), PyFloat 1] = Return sample_tb"
    by (simp add: make_probe_spec_def sample_tb_def)
  have h2: "shape2 sample_tb = (2, 2)" by (simp add: sample_tb_def)
  have h3: "(2::real) \<noteq> 0" by simp
  note h4 = translate_shift_interpolating
  have par: "even (2::nat) \<and> even (2::nat) \<and> (0::nat) < 2 \<and> (0::nat) < 2" by simp
  from wigner_center_slice[where make_probe = "make_probe_spec sample_wavefunction"
         and shift = translate_shift, OF h1 h2 h3 h4] par
  obtain W where W: "fft_wigner_probe (make_probe_spec sample_wavefunction) translate_shift 1 1 (2, 2) 1 2
          = Return W"
    and A: "\<forall>x y. x < 2 \<and> y < 2 \<longrightarrow>
              (\<exists>Z. translate_shift (Nd2 (2, 2) (\<lambda>i. item2 sample_tb i / of_real 2))
                          (- (real x - real 2 / 2), - (real y - real 2 / 2)) = Return Z \<and>
                   (\<forall>a b. a < 2 \<and> b < 2 \<longrightarrow>
                      item4 W (a, b, x, y) = cnj (item2 sample_tb (a, b) / of_real 2) * item2 Z (a, b)))"
    and C: "\<forall>a b. a < 2 \<and> b < 2 \<longrightarrow>
                 item4 W (a, b, 2 div 2, 2 div 2) =
                   of_real ((cmod (item2 sample_tb (a, b) / of_real 2))\<^sup>2)"
    and M: "\<forall>x y. x < 2 \<and> y < 2 \<longrightarrow>
                 slice_magnitude W x y \<le> slice_magnitude W (2 div 2) (2 div 2)"
    by blast
  from C have "item4 W (0, 0, 2 div 2, 2 div 2) =
      of_real ((cmod (item2 sample_tb (0, 0) / of_real 2))\<^sup>2)"
    by simp
  then have c: "item4 W (0, 0, 2 div 2, 2 div 2) = 1"
    by (simp add: sample_tb_def sample_wavefunction_def)
  from M have m: "slice_magnitude W 1 0 \<le> slice_magnitude W (2 div 2) (2 div 2)"
    by simp
  from A obtain Z where
    Z: "translate_shift (Nd2 (2, 2) (\<lambda>i. item2 sample_tb i / of_real 2))
          (- (real 1 - real 2 / 2), - (real 0 - real 2 / 2)) = Return Z"
       "item4 W (0, 0, 1, 0) = cnj (item2 sample_tb (0, 0) / of_real 2) * item2 Z (0, 0)"
    by force
  from Z(1) have "item2 Z (0, 0) = 0"
    by (auto simp: translate_shift_def translate2_def)
  with Z(2) have z: "item4 W (0, 0, 1, 0) = 0" by simp
  have g1: "ones_probe_model [PyFloat 1, PyFloat 1, PyInt (int 3), PyInt (int 3), PyFloat 1]
      = Return (Nd2 (3, 3) (\<lambda>_. 1))"
    by (simp add: ones_probe_model_def)
  have g2: "shape2 (Nd2 (3, 3) (\<lambda>_. 1) :: complex nd2) = (3, 3)" by simp
  have g3: "(1::real) \<noteq> 0" by simp
  have od: "odd (3::nat) \<or> odd (3::nat)" by simp
  from wigner_center_slice[where make_probe = ones_probe_model and shift = translate_shift,
         OF g1 g2 g3 h4] od
  have o: "(real 1 - real 3 / 2, real 1 - real 3 / 2) \<noteq> (0, 0)"
    by blast
  from h1 h2 h4 par W c z m o show ?thesis by blast
qed

text \<open>
  Entry by entry the center slice is not maximal: for the 2 x 2 probe with columns 2 and
  1, shifted by whole-pixel translation, the slice at grid position \<open>(1, 0)\<close> holds 2
  at entry \<open>(0, 1)\<close> and the center slice \<open>(1, 1)\<close> holds 1 there.
\<close>

lemma wigner_center_not_entrywise_maximal:
  "entry4 (fft_wigner_probe (make_probe_spec sample_wavefunction) translate_shift 1 1 (2, 2) 1 1)
     (0, 1, 1, 0) = Some 2 \<and>
   entry4 (fft_wigner_probe (make_probe_spec sample_wavefunction) translate_shift 1 1 (2, 2) 1 1)
     (0, 1, 1, 1) = Some 1"
proof -
  have h1: "make_probe_spec sample_wavefunction
      [PyFloat 1, PyFloat 1, PyInt (int 2), PyInt (int 2), PyFloat 1] = Return sample_tb"
    by (simp add: make_probe_spec_def sample_tb_def)
  have h2: "shape2 sample_tb = (2, 2)" by (simp add: sample_tb_def)
  have h3: "(1::real) \<noteq> 0" by simp
  have h4: "sample_P = Nd2 (2, 2) (\<lambda>i. item2 sample_tb i / of_real 1)"
    by (simp add: sample_P_def)
  have h5: "shape2 (translate2 sample_P (- grid_offset x 2, - grid_offset y 2)) = (2, 2) \<and>
            translate_shift sample_P (- grid_offset x 2, - grid_offset y 2) =
              Return (translate2 sample_P (- grid_offset x 2, - grid_offset y 2))" for x y
    by (simp add: translate_shift_def translate2_def sample_P_def)
  from fft_wigner_probe_value[where make_probe = "make_probe_spec sample_wavefunction"
         and shift = translate_shift
         and S = "\<lambda>x y. translate2 sample_P (- grid_offset x 2, - grid_offset y 2)",
         OF h1 h2 h3 h4 h5]
  obtain W where W: "fft_wigner_probe (make_probe_spec sample_wavefunction) translate_shift 1 1 (2, 2) 1 1
          = Return W" "shape4 W = (2, 2, 2, 2)"
      "item4 W = wigner_upto sample_P
         (\<lambda>x y. translate2 sample_P (- grid_offset x 2, - grid_offset y 2)) (\<lambda>_. True)"
    by blast
  have a: "item4 W (0, 1, 1, 0) = 2"
    unfolding W(3)
    by (simp add: wigner_upto_def sample_P_def sample_tb_def sample_wavefunction_def
          translate2_def grid_offset_def)
  have b: "item4 W (0, 1, 1, 1) = 1"
    unfolding W(3)
    by (simp add: wigner_upto_def sample_P_def sample_tb_def sample_wavefunction_def
          translate2_def grid_offset_def)
  show ?thesis
    using W(1,2) a b by (simp add: entry4_def)
qed

subsection \<open>The entry point\<close>

text \<open>
  A run that passes every step up to line 168: a dataset of ones of shape 3 x 3 x 3 x 3,
  a probe model that accepts both calls, whole-pixel translation for the shift and a
  sparsifier that changes nothing.
\<close>

lemma wdd_run_reaches_test_beam:
  "wdd module_globals ones_probe_model translate_shift sample_sparse4D ones_data 1 1 (3, 3) 1
     = Raise (NameError ''test_beam'')"
proof -
  let ?tb = "Nd2 (3, 3) (\<lambda>_. 1) :: complex nd2"
  let ?P = "Nd2 (3, 3) (\<lambda>i. item2 ?tb i / of_real 1)"
  let ?S = "\<lambda>x y. translate2 ?P (- grid_offset x 3, - grid_offset y 3)"
  have s1: "wdd_intensity_changer ?tb ones_data = Return 1"
    by (simp add: wdd_intensity_changer_closed frame_size_def sum_of_means_def probe_energy_def
          ones_data_def)
  have mp: "ones_probe_model [PyFloat 1, PyFloat 1, PyInt (int 3), PyInt (int 3), PyFloat 1] = Return ?tb"
    by (simp add: ones_probe_model_def)
  have sh: "shape2 (?S x y) = (3, 3) \<and>
            translate_shift ?P (- grid_offset x 3, - grid_offset y 3) = Return (?S x y)" for x y
    by (simp add: translate_shift_def translate2_def)
  from fft_wigner_probe_value[where make_probe = ones_probe_model and shift = translate_shift
         and S = ?S and P = ?P and s = 1, OF mp _ _ refl sh]
  obtain W where W: "fft_wigner_probe ones_probe_model translate_shift 1 1 (3, 3) 1 1 = Return W"
      "shape4 W = (3, 3, 3, 3)"
    by auto
  have d: "shape4 ones_data = (3, 3, 3, 3)" by (simp add: ones_data_def)
  have p3: "(0::nat) < 3" by simp
  from wdd_dataFT_value[OF d p3 p3] obtain F where
    F: "wdd_dataFT ones_data = Return F" "shape4 F = (3, 3, 3, 3)" by simp
  from ifft2_ifftshift_value[OF F(2) p3 p3] obtain G where
    G: "wdd_dataIFT F = Return G" "shape4 G = (3, 3, 3, 3)" by (simp add: wdd_dataIFT_def)
  from ifft2_ifftshift_value[OF W(2) p3 p3] obtain IW where
    IW: "wdd_inverse_wigner W = Return IW" "shape4 IW = (3, 3, 3, 3)"
    by (simp add: wdd_inverse_wigner_def)
  have "shape4 (conj4 IW) = shape4 G" using IW(2) G(2) by (simp add: conj4_def)
  from psi_multiply_same_shape[OF this] obtain Psi where
    Psi: "psi_multiply G (conj4 IW) = Return Psi" "shape4 Psi = (3, 3, 3, 3)"
    using G(2) by auto
  have s7: "wdd_Psi_Wigner sample_sparse4D G IW = Return Psi"
    by (simp add: wdd_Psi_Wigner_def wdd_Psi_product_def Psi(1) sample_sparse4D_def)
  have s8: "wdd_deconv module_globals Psi = Raise (NameError ''test_beam'')"
    using Psi(2)
    by (simp add: wdd_deconv_def wdd_slice_def getitem_first_def int_half_div load_test_beam)
  show ?thesis
    by (simp add: wdd_def Let_def ones_probe_model_def s1 W(1) F(1) G(1) IW(1) s7 s8)
qed

text \<open>
  C1. With the globals that \<open>wdd.py\<close> binds, \<open>wdd\<close> returns no result on any
  dataset, whatever the collaborators do: every run that gets as far as line 168 reads
  the name \<open>test_beam\<close>, which nothing binds, and raises NameError there, as the run
  on the dataset of ones does.
\<close>

theorem wdd_never_returns:
  "wdd module_globals make_probe shift sparse4D data4D aperture_mrad voltage image_size calibration_pm
     \<noteq> Return r \<and>
   wdd module_globals ones_probe_model translate_shift sample_sparse4D ones_data 1 1 (3, 3) 1
     = Raise (NameError ''test_beam'')"
proof
  show "wdd module_globals make_probe shift sparse4D data4D aperture_mrad voltage image_size
          calibration_pm \<noteq> Return r"
    by (auto simp: wdd_def Let_def and_then_def wdd_deconv_raises split: outcome.splits)
next
  show "wdd module_globals ones_probe_model translate_shift sample_sparse4D ones_data 1 1 (3, 3) 1
          = Raise (NameError ''test_beam'')"
    by (rule wdd_run_reaches_test_beam)
qed

end
